theory Spec2Isabelle
  imports Main "HOL-Library.Word"
begin

section \<open>The NetworkManager membership registry\<close>

text \<open>
  The repository holds two versions of the Solidity contract \<open>NetworkManager\<close>:
  \<^item> the Ownable one (mapping \<open>members\<close>, reverse map \<open>memberIndex\<close>, array
    \<open>memberAddresses\<close>; removal by reverse-map lookup), whose functions keep their names here;
  \<^item> the manager one (state variable \<open>manager\<close>, counter \<open>memberCount\<close>, removal by a
    linear search), whose functions carry the suffix \<open>_mgr\<close> where the names coincide.
  A Solidity mapping is total: a key never written reads as the zero value of the value
  type, and \<open>delete\<close> writes the zero value back. Mappings are therefore HOL functions.
  A call that reverts rolls the state back and logs nothing; a function of the model
  returns either the error or the new state with the events it emitted.
\<close>

subsection \<open>Data\<close>

type_synonym address = "160 word"
type_synonym uint256 = "256 word"
type_synonym uint16 = "16 word"
type_synonym bytes = "8 word list"

text \<open>
  The struct \<open>NodeMember\<close>. The manager contract names the second field
  \<open>nodeAddress\<close>; the two structs are otherwise the same.
\<close>

record NodeMember =
  x500Name :: string
  memberAddress :: address
  publicKey :: bytes
  isActive :: bool
  joinedAt :: uint256
  lastUpdated :: uint256
  serial :: uint256
  platformVersion :: uint16
  host :: string
  port :: uint16

text \<open>The zero value of the struct: what an unwritten or deleted mapping slot holds.\<close>

definition zeroMember :: NodeMember where
  "zeroMember = \<lparr> x500Name = [], memberAddress = 0, publicKey = [], isActive = False,
     joinedAt = 0, lastUpdated = 0, serial = 0, platformVersion = 0, host = [], port = 0 \<rparr>"

text \<open>What a call sees of its transaction: \<open>msg.sender\<close> and \<open>block.timestamp\<close>.\<close>

record env =
  sender :: address
  timestamp :: uint256

datatype event =
    MemberAdded address string
  | MemberRemoved address
  | MemberUpdated address
  | ManagerChanged address address

text \<open>
  The reverts of the contracts: \<open>Unauthorized\<close> is the failed \<open>onlyOwner\<close> /
  \<open>onlyManager\<close> check, \<open>NotFound\<close> is "Member does not exist", \<open>AlreadyExists\<close> is
  "Member already exists", \<open>InvalidTarget\<close> is "Invalid manager address", and
  \<open>Panic\<close> is the compiler's checked arithmetic or array bound (Solidity 0.8).
\<close>

datatype error = Unauthorized | NotFound | AlreadyExists | InvalidTarget | Panic

text \<open>
  The storage both contracts share: the mapping \<open>members\<close> and the array
  \<open>memberAddresses\<close>. Array positions and lengths are \<open>uint256\<close> in the source; an
  array of \<open>2 ^ 256\<close> slots cannot exist, so they are \<open>nat\<close> here and \<open>push\<close> never
  overflows.
\<close>

record Registry =
  members :: "address \<Rightarrow> NodeMember"
  memberAddresses :: "address list"

subsection \<open>The views, the same in both contracts\<close>

definition memberExists :: "'a Registry_scheme \<Rightarrow> address \<Rightarrow> bool" where
  "memberExists s a \<longleftrightarrow> memberAddress (members s a) \<noteq> 0"

definition memberDoesNotExist :: "'a Registry_scheme \<Rightarrow> address \<Rightarrow> bool" where
  "memberDoesNotExist s a \<longleftrightarrow> memberAddress (members s a) = 0"

definition getMember :: "'a Registry_scheme \<Rightarrow> address \<Rightarrow> error + NodeMember" where
  "getMember s a = (if \<not> memberExists s a then Inl NotFound else Inr (members s a))"

definition getAllMembers :: "'a Registry_scheme \<Rightarrow> address list" where
  "getAllMembers s = memberAddresses s"

definition isMember :: "'a Registry_scheme \<Rightarrow> address \<Rightarrow> bool" where
  "isMember s a \<longleftrightarrow> memberAddress (members s a) \<noteq> 0"

subsection \<open>The Ownable contract\<close>

text \<open>
  Modelled from the spec: the contract inherits \<open>owner\<close>, \<open>onlyOwner\<close> and
  \<open>transferOwnership\<close> from OpenZeppelin's Ownable, which is not among the sources. The
  spec's Access Controller gives them: \<open>authorize(caller)\<close> is true iff the caller equals
  the current authority, initialised to the deploying principal; \<open>transfer\<close> fails with
  Unauthorized unless the caller is the authority, fails with InvalidTarget on the null
  identity, and otherwise replaces the authority and signals the change.
\<close>

record NetworkManager = Registry +
  owner :: address
  memberIndex :: "address \<Rightarrow> nat"

definition onlyOwner :: "NetworkManager \<Rightarrow> env \<Rightarrow> bool" where
  "onlyOwner s e \<longleftrightarrow> sender e = owner s"

definition constructor :: "env \<Rightarrow> NetworkManager" where
  "constructor e = \<lparr> members = (\<lambda>_. zeroMember), memberAddresses = [],
     owner = sender e, memberIndex = (\<lambda>_. 0) \<rparr>"

definition addMember ::
  "NetworkManager \<Rightarrow> env \<Rightarrow> address \<Rightarrow> string \<Rightarrow> bytes \<Rightarrow> uint256 \<Rightarrow> uint16 \<Rightarrow> string \<Rightarrow> uint16
     \<Rightarrow> error + NetworkManager \<times> event list" where
  "addMember s e a name key ser ver h p =
     (if \<not> onlyOwner s e then Inl Unauthorized
      else if \<not> memberDoesNotExist s a then Inl AlreadyExists
      else
        let newMember = \<lparr> x500Name = name, memberAddress = a, publicKey = key,
              isActive = True, joinedAt = timestamp e, lastUpdated = timestamp e,
              serial = ser, platformVersion = ver, host = h, port = p \<rparr>
        in Inr (s\<lparr> members := (members s)(a := newMember),
                   memberIndex := (memberIndex s)(a := length (memberAddresses s)),
                   memberAddresses := memberAddresses s @ [a] \<rparr>,
                [MemberAdded a name]))"

text \<open>
  \<open>removeMember\<close>: \<open>memberAddresses.length - 1\<close> is checked arithmetic and the
  indexed write is bound-checked, so an empty array or a position past the end panics.
\<close>

definition removeMember ::
  "NetworkManager \<Rightarrow> env \<Rightarrow> address \<Rightarrow> error + NetworkManager \<times> event list" where
  "removeMember s e a =
     (if \<not> onlyOwner s e then Inl Unauthorized
      else if \<not> memberExists s a then Inl NotFound
      else
        let index = memberIndex s a in
        if memberAddresses s = [] then Inl Panic
        else
          let lastMember = memberAddresses s ! (length (memberAddresses s) - 1) in
          if \<not> index < length (memberAddresses s) then Inl Panic
          else
            let arr = (memberAddresses s)[index := lastMember];
                idx = (memberIndex s)(lastMember := index)
            in Inr (s\<lparr> memberAddresses := butlast arr,
                       memberIndex := idx(a := 0),
                       members := (members s)(a := zeroMember) \<rparr>,
                    [MemberRemoved a]))"

definition updateMemberStatus ::
  "NetworkManager \<Rightarrow> env \<Rightarrow> address \<Rightarrow> bool \<Rightarrow> error + NetworkManager \<times> event list" where
  "updateMemberStatus s e a act =
     (if \<not> onlyOwner s e then Inl Unauthorized
      else if \<not> memberExists s a then Inl NotFound
      else Inr (s\<lparr> members := (members s)
                   (a := (members s a)\<lparr> isActive := act, lastUpdated := timestamp e \<rparr>) \<rparr>,
                [MemberUpdated a]))"

definition updateMemberDetails ::
  "NetworkManager \<Rightarrow> env \<Rightarrow> address \<Rightarrow> string \<Rightarrow> bytes \<Rightarrow> uint256 \<Rightarrow> uint16 \<Rightarrow> string \<Rightarrow> uint16
     \<Rightarrow> error + NetworkManager \<times> event list" where
  "updateMemberDetails s e a name key ser ver h p =
     (if \<not> onlyOwner s e then Inl Unauthorized
      else if \<not> memberExists s a then Inl NotFound
      else Inr (s\<lparr> members := (members s)
                   (a := (members s a)\<lparr> x500Name := name, publicKey := key, serial := ser,
                          platformVersion := ver, host := h, port := p,
                          lastUpdated := timestamp e \<rparr>) \<rparr>,
                [MemberUpdated a]))"

text \<open>
  Modelled from the spec: \<open>transferOwnership\<close> of the imported Ownable, after the
  spec's \<open>transfer(caller, newAuthority)\<close>. The change is signalled by an event of the
  library, rendered here with the manager contract's \<open>ManagerChanged\<close>.
\<close>

definition transferOwnership ::
  "NetworkManager \<Rightarrow> env \<Rightarrow> address \<Rightarrow> error + NetworkManager \<times> event list" where
  "transferOwnership s e newOwner =
     (if \<not> onlyOwner s e then Inl Unauthorized
      else if newOwner = 0 then Inl InvalidTarget
      else Inr (s\<lparr> owner := newOwner \<rparr>, [ManagerChanged (owner s) newOwner]))"

text \<open>
  The command-line client's \<open>updateSubnetMemberDetail\<close> against the Ownable contract,
  which has no such function: it reads the member with \<open>getMember\<close> and sends
  \<open>updateMemberDetails\<close> with the name and key it read.
\<close>

definition updateSubnetMemberDetail_client ::
  "NetworkManager \<Rightarrow> env \<Rightarrow> address \<Rightarrow> uint256 \<Rightarrow> uint16 \<Rightarrow> string \<Rightarrow> uint16
     \<Rightarrow> error + NetworkManager \<times> event list" where
  "updateSubnetMemberDetail_client s e a ser ver h p =
     (case getMember s a of
        Inl err \<Rightarrow> Inl err
      | Inr currentMember \<Rightarrow>
          updateMemberDetails s e a (x500Name currentMember) (publicKey currentMember)
            ser ver h p)"

text \<open>The calls a transaction can make, and its effect: a revert leaves the state as it was.\<close>

datatype call =
    AddMember address string bytes uint256 uint16 string uint16
  | RemoveMember address
  | UpdateMemberStatus address bool
  | UpdateMemberDetails address string bytes uint256 uint16 string uint16
  | TransferOwnership address

fun exec :: "NetworkManager \<Rightarrow> env \<Rightarrow> call \<Rightarrow> error + NetworkManager \<times> event list" where
  "exec s e (AddMember a name key ser ver h p) = addMember s e a name key ser ver h p"
| "exec s e (RemoveMember a) = removeMember s e a"
| "exec s e (UpdateMemberStatus a act) = updateMemberStatus s e a act"
| "exec s e (UpdateMemberDetails a name key ser ver h p) =
     updateMemberDetails s e a name key ser ver h p"
| "exec s e (TransferOwnership n) = transferOwnership s e n"

definition transact :: "NetworkManager \<Rightarrow> env \<times> call \<Rightarrow> NetworkManager" where
  "transact s tx = (case exec s (fst tx) (snd tx) of Inl err \<Rightarrow> s | Inr r \<Rightarrow> fst r)"

definition logs :: "NetworkManager \<Rightarrow> env \<times> call \<Rightarrow> event list" where
  "logs s tx = (case exec s (fst tx) (snd tx) of Inl err \<Rightarrow> [] | Inr r \<Rightarrow> snd r)"

definition run :: "NetworkManager \<Rightarrow> (env \<times> call) list \<Rightarrow> NetworkManager" where
  "run s txs = foldl transact s txs"

subsection \<open>The manager contract\<close>

text \<open>
  \<open>memberCount\<close> is incremented with every \<open>push\<close> and decremented with every
  \<open>pop\<close>, so it can overflow only when the array length does; like the length it is a
  \<open>nat\<close>, its increment never panics, and its checked decrement panics at zero.
\<close>

record NetworkManager_mgr = Registry +
  manager :: address
  memberCount :: nat

definition onlyManager :: "NetworkManager_mgr \<Rightarrow> env \<Rightarrow> bool" where
  "onlyManager s e \<longleftrightarrow> sender e = manager s"

definition constructor_mgr :: "env \<Rightarrow> NetworkManager_mgr" where
  "constructor_mgr e = \<lparr> members = (\<lambda>_. zeroMember), memberAddresses = [],
     manager = sender e, memberCount = 0 \<rparr>"

definition addMember_mgr ::
  "NetworkManager_mgr \<Rightarrow> env \<Rightarrow> address \<Rightarrow> string \<Rightarrow> bytes \<Rightarrow> uint256 \<Rightarrow> uint16 \<Rightarrow> string \<Rightarrow> uint16
     \<Rightarrow> error + NetworkManager_mgr \<times> event list" where
  "addMember_mgr s e a name key ser ver h p =
     (if \<not> onlyManager s e then Inl Unauthorized
      else if \<not> memberDoesNotExist s a then Inl AlreadyExists
      else
        let newMember = \<lparr> x500Name = name, memberAddress = a, publicKey = key,
              isActive = True, joinedAt = timestamp e, lastUpdated = timestamp e,
              serial = ser, platformVersion = ver, host = h, port = p \<rparr>
        in Inr (s\<lparr> members := (members s)(a := newMember),
                   memberAddresses := memberAddresses s @ [a],
                   memberCount := memberCount s + 1 \<rparr>,
                [MemberAdded a name]))"

text \<open>
  The search loop of \<open>removeMember\<close>: \<open>i\<close> runs over the array from the left and
  stops at the first slot holding the address. The result is the pair of the loop's
  variables \<open>(index, found)\<close>; \<open>index\<close> keeps its initial zero when nothing is found.
\<close>

fun findIndex :: "address list \<Rightarrow> address \<Rightarrow> nat \<Rightarrow> nat \<times> bool" where
  "findIndex [] a i = (0, False)"
| "findIndex (x # xs) a i = (if x = a then (i, True) else findIndex xs a (Suc i))"

definition removeMember_mgr ::
  "NetworkManager_mgr \<Rightarrow> env \<Rightarrow> address \<Rightarrow> error + NetworkManager_mgr \<times> event list" where
  "removeMember_mgr s e a =
     (if \<not> onlyManager s e then Inl Unauthorized
      else if \<not> memberExists s a then Inl NotFound
      else
        let (index, found) = findIndex (memberAddresses s) a 0 in
        if found then
          let arr = (memberAddresses s)
                      [index := memberAddresses s ! (length (memberAddresses s) - 1)]
          in if memberCount s = 0 then Inl Panic
             else Inr (s\<lparr> memberAddresses := butlast arr,
                         members := (members s)(a := zeroMember),
                         memberCount := memberCount s - 1 \<rparr>,
                      [MemberRemoved a])
        else Inr (s, []))"

definition updateMemberStatus_mgr ::
  "NetworkManager_mgr \<Rightarrow> env \<Rightarrow> address \<Rightarrow> bool \<Rightarrow> error + NetworkManager_mgr \<times> event list" where
  "updateMemberStatus_mgr s e a act =
     (if \<not> onlyManager s e then Inl Unauthorized
      else if \<not> memberExists s a then Inl NotFound
      else Inr (s\<lparr> members := (members s)
                   (a := (members s a)\<lparr> isActive := act, lastUpdated := timestamp e \<rparr>) \<rparr>,
                [MemberUpdated a]))"

definition updateMemberDetails_mgr ::
  "NetworkManager_mgr \<Rightarrow> env \<Rightarrow> address \<Rightarrow> string \<Rightarrow> bytes \<Rightarrow> uint256 \<Rightarrow> uint16 \<Rightarrow> string \<Rightarrow> uint16
     \<Rightarrow> error + NetworkManager_mgr \<times> event list" where
  "updateMemberDetails_mgr s e a name key ser ver h p =
     (if \<not> onlyManager s e then Inl Unauthorized
      else if \<not> memberExists s a then Inl NotFound
      else Inr (s\<lparr> members := (members s)
                   (a := (members s a)\<lparr> x500Name := name, publicKey := key, serial := ser,
                          platformVersion := ver, host := h, port := p,
                          lastUpdated := timestamp e \<rparr>) \<rparr>,
                [MemberUpdated a]))"

definition transferManagerRole ::
  "NetworkManager_mgr \<Rightarrow> env \<Rightarrow> address \<Rightarrow> error + NetworkManager_mgr \<times> event list" where
  "transferManagerRole s e newManager =
     (if \<not> onlyManager s e then Inl Unauthorized
      else if \<not> newManager \<noteq> 0 then Inl InvalidTarget
      else
        let oldManager = manager s
        in Inr (s\<lparr> manager := newManager \<rparr>, [ManagerChanged oldManager newManager]))"

definition updateSubnetMemberDetail ::
  "NetworkManager_mgr \<Rightarrow> env \<Rightarrow> address \<Rightarrow> uint256 \<Rightarrow> uint16 \<Rightarrow> string \<Rightarrow> uint16
     \<Rightarrow> error + NetworkManager_mgr \<times> event list" where
  "updateSubnetMemberDetail s e a ser ver h p =
     (if \<not> onlyManager s e then Inl Unauthorized
      else if \<not> memberExists s a then Inl NotFound
      else Inr (s\<lparr> members := (members s)
                   (a := (members s a)\<lparr> serial := ser, platformVersion := ver, host := h,
                          port := p, lastUpdated := timestamp e \<rparr>) \<rparr>,
                [MemberUpdated a]))"

datatype call_mgr =
    AddMember_mgr address string bytes uint256 uint16 string uint16
  | RemoveMember_mgr address
  | UpdateMemberStatus_mgr address bool
  | UpdateMemberDetails_mgr address string bytes uint256 uint16 string uint16
  | TransferManagerRole address
  | UpdateSubnetMemberDetail address uint256 uint16 string uint16

fun exec_mgr ::
  "NetworkManager_mgr \<Rightarrow> env \<Rightarrow> call_mgr \<Rightarrow> error + NetworkManager_mgr \<times> event list" where
  "exec_mgr s e (AddMember_mgr a name key ser ver h p) =
     addMember_mgr s e a name key ser ver h p"
| "exec_mgr s e (RemoveMember_mgr a) = removeMember_mgr s e a"
| "exec_mgr s e (UpdateMemberStatus_mgr a act) = updateMemberStatus_mgr s e a act"
| "exec_mgr s e (UpdateMemberDetails_mgr a name key ser ver h p) =
     updateMemberDetails_mgr s e a name key ser ver h p"
| "exec_mgr s e (TransferManagerRole n) = transferManagerRole s e n"
| "exec_mgr s e (UpdateSubnetMemberDetail a ser ver h p) =
     updateSubnetMemberDetail s e a ser ver h p"

definition transact_mgr :: "NetworkManager_mgr \<Rightarrow> env \<times> call_mgr \<Rightarrow> NetworkManager_mgr" where
  "transact_mgr s tx = (case exec_mgr s (fst tx) (snd tx) of Inl err \<Rightarrow> s | Inr r \<Rightarrow> fst r)"

definition logs_mgr :: "NetworkManager_mgr \<Rightarrow> env \<times> call_mgr \<Rightarrow> event list" where
  "logs_mgr s tx = (case exec_mgr s (fst tx) (snd tx) of Inl err \<Rightarrow> [] | Inr r \<Rightarrow> snd r)"

definition run_mgr :: "NetworkManager_mgr \<Rightarrow> (env \<times> call_mgr) list \<Rightarrow> NetworkManager_mgr" where
  "run_mgr s txs = foldl transact_mgr s txs"

subsection \<open>Invariants of the reachable states\<close>

text \<open>
  The Ownable contract: a record's address field is zero or its own key; every key with
  a nonzero address field has its reverse-map position inside the array, at the slot that
  holds the key; every nonzero address in the array is such a key, at that position.
\<close>

definition wellIndexed :: "NetworkManager \<Rightarrow> bool" where
  "wellIndexed s \<longleftrightarrow>
     (\<forall>a. memberAddress (members s a) = 0 \<or> memberAddress (members s a) = a) \<and>
     (\<forall>a. memberAddress (members s a) \<noteq> 0 \<longrightarrow>
          memberIndex s a < length (memberAddresses s) \<and>
          memberAddresses s ! memberIndex s a = a) \<and>
     (\<forall>i < length (memberAddresses s). memberAddresses s ! i \<noteq> 0 \<longrightarrow>
          memberAddress (members s (memberAddresses s ! i)) \<noteq> 0 \<and>
          memberIndex s (memberAddresses s ! i) = i)"

text \<open>
  The manager contract: a record's address field is zero or its own key, and every key
  with a nonzero address field occurs in the array.
\<close>

definition wellListed :: "NetworkManager_mgr \<Rightarrow> bool" where
  "wellListed s \<longleftrightarrow>
     (\<forall>a. memberAddress (members s a) = 0 \<or> memberAddress (members s a) = a) \<and>
     (\<forall>a. memberAddress (members s a) \<noteq> 0 \<longrightarrow> a \<in> set (memberAddresses s))"

section \<open>The index invariant of the Ownable contract\<close>

lemma wellIndexed_constructor: "wellIndexed (constructor e)"
  by (simp add: wellIndexed_def constructor_def zeroMember_def)

lemma wellIndexed_addMember:
  assumes "wellIndexed s" and "addMember s e a name key ser ver h p = Inr (s', evs)"
  shows "wellIndexed s'"
proof -
  from assms(2) have absent: "memberAddress (members s a) = 0"
    and s': "s' = s\<lparr> members := (members s)(a := \<lparr> x500Name = name, memberAddress = a, publicKey = key,
              isActive = True, joinedAt = timestamp e, lastUpdated = timestamp e,
              serial = ser, platformVersion = ver, host = h, port = p \<rparr>),
                   memberIndex := (memberIndex s)(a := length (memberAddresses s)),
                   memberAddresses := memberAddresses s @ [a] \<rparr>"
    by (auto simp: addMember_def memberDoesNotExist_def Let_def split: if_splits)
  from assms(1) absent show ?thesis
    unfolding s' wellIndexed_def
    by (auto simp: nth_append less_Suc_eq)
qed

lemma wellIndexed_updateMemberStatus:
  assumes "wellIndexed s" and "updateMemberStatus s e a act = Inr (s', evs)"
  shows "wellIndexed s'"
  using assms
  by (auto simp: updateMemberStatus_def memberExists_def wellIndexed_def split: if_splits)

lemma wellIndexed_updateMemberDetails:
  assumes "wellIndexed s" and "updateMemberDetails s e a name key ser ver h p = Inr (s', evs)"
  shows "wellIndexed s'"
  using assms
  by (auto simp: updateMemberDetails_def memberExists_def wellIndexed_def split: if_splits)

lemma wellIndexed_transferOwnership:
  assumes "wellIndexed s" and "transferOwnership s e n = Inr (s', evs)"
  shows "wellIndexed s'"
  using assms
  by (auto simp: transferOwnership_def wellIndexed_def split: if_splits)

lemma removeMember_Inr:
  assumes "removeMember s e a = Inr (s', evs)"
  shows "memberAddress (members s a) \<noteq> 0"
    and "memberAddresses s \<noteq> []"
    and "memberIndex s a < length (memberAddresses s)"
    and "s' = s\<lparr> memberAddresses := butlast ((memberAddresses s)[memberIndex s a := last (memberAddresses s)]),
                 memberIndex := ((memberIndex s)(last (memberAddresses s) := memberIndex s a))(a := 0),
                 members := (members s)(a := zeroMember) \<rparr>"
    and "evs = [MemberRemoved a]"
  using assms
  by (auto simp: removeMember_def memberExists_def Let_def last_conv_nth split: if_splits)

lemma wellIndexed_removeMember:
  assumes inv: "wellIndexed s" and rm: "removeMember s e a = Inr (s', evs)"
  shows "wellIndexed s'"
proof -
  let ?L = "memberAddresses s"
  let ?n = "length ?L"
  let ?k = "memberIndex s a"
  let ?z = "last ?L"
  note r = removeMember_Inr [OF rm]
  have key: "\<And>b. memberAddress (members s b) = 0 \<or> memberAddress (members s b) = b"
    using inv by (simp add: wellIndexed_def)
  have fwd: "\<And>b. memberAddress (members s b) \<noteq> 0 \<Longrightarrow> memberIndex s b < ?n \<and> ?L ! memberIndex s b = b"
    using inv by (simp add: wellIndexed_def)
  have bwd: "\<And>i. i < ?n \<Longrightarrow> ?L ! i \<noteq> 0 \<Longrightarrow>
      memberAddress (members s (?L ! i)) \<noteq> 0 \<and> memberIndex s (?L ! i) = i"
    using inv by (simp add: wellIndexed_def)
  have a0: "a \<noteq> 0" using r(1) key [of a] by auto
  have ka: "?L ! ?k = a" using fwd [OF r(1)] by simp
  have zn: "?z = ?L ! (?n - 1)" using r(2) by (simp add: last_conv_nth)
  have L': "memberAddresses s' = butlast (?L[?k := ?z])" by (simp add: r(4))
  have len: "length (memberAddresses s') = ?n - 1" by (simp add: L')
  have nth': "\<And>i. i < ?n - 1 \<Longrightarrow> memberAddresses s' ! i = (if i = ?k then ?z else ?L ! i)"
    by (simp add: L' nth_butlast)
  have M': "\<And>b. members s' b = (if b = a then zeroMember else members s b)" by (simp add: r(4))
  have I': "\<And>b. memberIndex s' b = (if b = a then 0 else if b = ?z then ?k else memberIndex s b)"
    by (simp add: r(4))
  have c1: "\<forall>b. memberAddress (members s' b) = 0 \<or> memberAddress (members s' b) = b"
    using key by (simp add: M' zeroMember_def)
  have c2: "\<forall>b. memberAddress (members s' b) \<noteq> 0 \<longrightarrow>
      memberIndex s' b < length (memberAddresses s') \<and> memberAddresses s' ! memberIndex s' b = b"
  proof (intro allI impI)
    fix b assume b: "memberAddress (members s' b) \<noteq> 0"
    then have ba: "b \<noteq> a" and bs: "memberAddress (members s b) \<noteq> 0"
      by (auto simp: M' zeroMember_def split: if_splits)
    have b0: "b \<noteq> 0" using bs key [of b] by auto
    note fb = fwd [OF bs]
    show "memberIndex s' b < length (memberAddresses s') \<and> memberAddresses s' ! memberIndex s' b = b"
    proof (cases "b = ?z")
      case True
      have "?k \<noteq> ?n - 1" using ka zn True ba by auto
      then have "?k < ?n - 1" using r(3) by auto
      then show ?thesis using True ba by (simp add: I' len nth')
    next
      case False
      have "memberIndex s b \<noteq> ?n - 1" using fb zn False by auto
      then have lt: "memberIndex s b < ?n - 1" using fb by auto
      have "memberIndex s b \<noteq> ?k" using fb ka ba by auto
      then show ?thesis using False ba lt fb by (simp add: I' len nth')
    qed
  qed
  have c3: "\<forall>i < length (memberAddresses s'). memberAddresses s' ! i \<noteq> 0 \<longrightarrow>
      memberAddress (members s' (memberAddresses s' ! i)) \<noteq> 0 \<and>
      memberIndex s' (memberAddresses s' ! i) = i"
  proof (intro allI impI)
    fix i assume i: "i < length (memberAddresses s')" and nz: "memberAddresses s' ! i \<noteq> 0"
    have i1: "i < ?n - 1" using i by (simp add: len)
    then have i2: "i < ?n" by simp
    have n1: "?n - 1 < ?n" using r(2) by simp
    show "memberAddress (members s' (memberAddresses s' ! i)) \<noteq> 0 \<and>
      memberIndex s' (memberAddresses s' ! i) = i"
    proof (cases "i = ?k")
      case True
      then have z0: "?z \<noteq> 0" using nz i1 by (simp add: nth')
      have zb: "memberAddress (members s ?z) \<noteq> 0 \<and> memberIndex s ?z = ?n - 1"
        using bwd [OF n1] z0 zn by simp
      have "?z \<noteq> a" using zb True i1 by auto
      then show ?thesis using True i1 zb by (simp add: nth' I' M')
    next
      case False
      then have eq: "memberAddresses s' ! i = ?L ! i" using i1 by (simp add: nth')
      have li: "memberAddress (members s (?L ! i)) \<noteq> 0 \<and> memberIndex s (?L ! i) = i"
        using bwd [OF i2] nz eq by simp
      have na: "?L ! i \<noteq> a" using li False by auto
      have nzl: "?L ! i \<noteq> ?z"
      proof
        assume h: "?L ! i = ?z"
        then have "?z \<noteq> 0" using nz eq by simp
        then have "memberIndex s ?z = ?n - 1" using bwd [OF n1] zn by simp
        then show False using li h i1 by simp
      qed
      show ?thesis using li na nzl by (simp add: eq I' M')
    qed
  qed
  show ?thesis unfolding wellIndexed_def using c1 c2 c3 by blast
qed

lemma zero_stays_removeMember:
  assumes inv: "wellIndexed s" and rm: "removeMember s e a = Inr (s', evs)"
    and z: "0 \<in> set (memberAddresses s)"
  shows "0 \<in> set (memberAddresses s')"
proof -
  let ?L = "memberAddresses s"
  let ?n = "length ?L"
  let ?k = "memberIndex s a"
  note r = removeMember_Inr [OF rm]
  have key: "memberAddress (members s a) = 0 \<or> memberAddress (members s a) = a"
    using inv by (simp add: wellIndexed_def)
  have a0: "a \<noteq> 0" using r(1) key by auto
  have ka: "?L ! ?k = a" using inv r(1) by (simp add: wellIndexed_def)
  have L': "memberAddresses s' = butlast (?L[?k := last ?L])" by (simp add: r(4))
  have nth': "\<And>i. i < ?n - 1 \<Longrightarrow> memberAddresses s' ! i = (if i = ?k then last ?L else ?L ! i)"
    by (simp add: L' nth_butlast)
  have len: "length (memberAddresses s') = ?n - 1" by (simp add: L')
  from z obtain j where j: "j < ?n" "?L ! j = 0" by (auto simp: in_set_conv_nth)
  have jk: "j \<noteq> ?k" using j ka a0 by auto
  show ?thesis
  proof (cases "j = ?n - 1")
    case True
    then have lz: "last ?L = 0" using j r(2) by (simp add: last_conv_nth)
    have "?k < ?n - 1" using r(3) jk True by auto
    then have "?k < length (memberAddresses s') \<and> memberAddresses s' ! ?k = 0"
      using lz by (simp add: len nth')
    then show ?thesis by (metis nth_mem)
  next
    case False
    then have "j < ?n - 1" using j by auto
    then have "j < length (memberAddresses s') \<and> memberAddresses s' ! j = 0"
      using jk j by (simp add: len nth')
    then show ?thesis by (metis nth_mem)
  qed
qed

lemma wellIndexed_exec:
  assumes "wellIndexed s" and "exec s e c = Inr (s', evs)"
  shows "wellIndexed s'"
proof (cases c)
  case (AddMember a name key ser ver h p)
  then show ?thesis using assms wellIndexed_addMember by simp
next
  case (RemoveMember a)
  then show ?thesis using assms wellIndexed_removeMember by simp
next
  case (UpdateMemberStatus a act)
  then show ?thesis using assms wellIndexed_updateMemberStatus by simp
next
  case (UpdateMemberDetails a name key ser ver h p)
  then show ?thesis using assms wellIndexed_updateMemberDetails by simp
next
  case (TransferOwnership n)
  then show ?thesis using assms wellIndexed_transferOwnership by simp
qed

lemma wellIndexed_transact: "wellIndexed s \<Longrightarrow> wellIndexed (transact s tx)"
  by (cases "exec s (fst tx) (snd tx)") (auto simp: transact_def dest: wellIndexed_exec)

lemma wellIndexed_run: "wellIndexed s \<Longrightarrow> wellIndexed (run s txs)"
  unfolding run_def by (induction txs arbitrary: s) (simp_all add: wellIndexed_transact)

lemma wellIndexed_reachable: "wellIndexed (run (constructor e) txs)"
  by (rule wellIndexed_run) (rule wellIndexed_constructor)

lemma wellIndexed_members:
  assumes "wellIndexed s"
  shows "{a \<in> set (getAllMembers s). a \<noteq> 0} = {a. isMember s a}"
proof (intro set_eqI iffI)
  fix a assume "a \<in> {a \<in> set (getAllMembers s). a \<noteq> 0}"
  then obtain i where "i < length (memberAddresses s)" "memberAddresses s ! i = a" "a \<noteq> 0"
    by (auto simp: getAllMembers_def in_set_conv_nth)
  then show "a \<in> {a. isMember s a}"
    using assms by (auto simp: wellIndexed_def isMember_def)
next
  fix a assume "a \<in> {a. isMember s a}"
  then have p: "memberAddress (members s a) \<noteq> 0" by (simp add: isMember_def)
  then have "memberIndex s a < length (memberAddresses s) \<and> memberAddresses s ! memberIndex s a = a"
    using assms by (simp add: wellIndexed_def)
  then have "a \<in> set (memberAddresses s)" by (metis nth_mem)
  moreover have "a \<noteq> 0" using p assms unfolding wellIndexed_def by metis
  ultimately show "a \<in> {a \<in> set (getAllMembers s). a \<noteq> 0}" by (simp add: getAllMembers_def)
qed

lemma distinct_filter_nth:
  assumes "\<forall>i<length xs. \<forall>j<length xs. P (xs ! i) \<longrightarrow> xs ! i = xs ! j \<longrightarrow> i = j"
  shows "distinct (filter P xs)"
  using assms
proof (induction xs)
  case Nil
  then show ?case by simp
next
  case (Cons x xs)
  have tl: "\<forall>i<length xs. \<forall>j<length xs. P (xs ! i) \<longrightarrow> xs ! i = xs ! j \<longrightarrow> i = j"
  proof (intro allI impI)
    fix i j assume "i < length xs" "j < length xs" "P (xs ! i)" "xs ! i = xs ! j"
    then have "Suc i = Suc j"
      using Cons.prems [rule_format, of "Suc i" "Suc j"] by simp
    then show "i = j" by simp
  qed
  have hd: "P x \<Longrightarrow> x \<notin> set xs"
  proof
    assume "P x" "x \<in> set xs"
    then obtain j where "j < length xs" "xs ! j = x" by (auto simp: in_set_conv_nth)
    then have "0 = Suc j"
      using Cons.prems [rule_format, of 0 "Suc j"] \<open>P x\<close> by simp
    then show False by simp
  qed
  show ?case using Cons.IH [OF tl] hd by simp
qed

lemma wellIndexed_distinct:
  assumes "wellIndexed s"
  shows "distinct (filter (\<lambda>a. a \<noteq> 0) (getAllMembers s))"
proof -
  have "\<forall>i<length (memberAddresses s). \<forall>j<length (memberAddresses s).
      memberAddresses s ! i \<noteq> 0 \<longrightarrow> memberAddresses s ! i = memberAddresses s ! j \<longrightarrow> i = j"
    using assms unfolding wellIndexed_def by metis
  then show ?thesis unfolding getAllMembers_def by (rule distinct_filter_nth)
qed


text \<open>
  C1 (amended). In every state reached from the freshly deployed Ownable contract by any
  sequence of transactions, the nonzero addresses of \<open>getAllMembers\<close> are exactly the
  addresses for which \<open>isMember\<close> holds, no nonzero address occurs twice, and every
  nonzero listed address has a record whose address field is that address and a
  reverse-map position that is the slot holding it. When the zero address is not in the
  list, the list itself has no duplicates and is exactly the set of members.
\<close>

theorem index_consistency:
  assumes "s = run (constructor e) txs"
  shows "{a \<in> set (getAllMembers s). a \<noteq> 0} = {a. isMember s a} \<and>
         distinct (filter (\<lambda>a. a \<noteq> 0) (getAllMembers s)) \<and>
         (\<forall>a \<in> set (getAllMembers s). a \<noteq> 0 \<longrightarrow>
           getMember s a = Inr (members s a) \<and> memberAddress (members s a) = a \<and>
           memberIndex s a < length (getAllMembers s) \<and>
           getAllMembers s ! memberIndex s a = a) \<and>
         (0 \<notin> set (getAllMembers s) \<longrightarrow>
           set (getAllMembers s) = {a. isMember s a} \<and> distinct (getAllMembers s))"
proof -
  have inv: "wellIndexed s" using assms wellIndexed_reachable by simp
  have m: "{a \<in> set (getAllMembers s). a \<noteq> 0} = {a. isMember s a}"
    using inv by (rule wellIndexed_members)
  have d: "distinct (filter (\<lambda>a. a \<noteq> 0) (getAllMembers s))"
    using inv by (rule wellIndexed_distinct)
  have r: "\<forall>a \<in> set (getAllMembers s). a \<noteq> 0 \<longrightarrow>
           getMember s a = Inr (members s a) \<and> memberAddress (members s a) = a \<and>
           memberIndex s a < length (getAllMembers s) \<and>
           getAllMembers s ! memberIndex s a = a"
  proof (intro ballI impI)
    fix a assume "a \<in> set (getAllMembers s)" "a \<noteq> 0"
    then have "isMember s a" using m by blast
    then have p: "memberAddress (members s a) \<noteq> 0" by (simp add: isMember_def)
    moreover have "memberAddress (members s a) = 0 \<or> memberAddress (members s a) = a"
      using inv by (simp add: wellIndexed_def)
    moreover have "memberIndex s a < length (memberAddresses s) \<and>
        memberAddresses s ! memberIndex s a = a"
      using inv p by (simp add: wellIndexed_def)
    ultimately show "getMember s a = Inr (members s a) \<and> memberAddress (members s a) = a \<and>
           memberIndex s a < length (getAllMembers s) \<and>
           getAllMembers s ! memberIndex s a = a"
      by (simp add: getMember_def memberExists_def getAllMembers_def)
  qed
  have z: "0 \<notin> set (getAllMembers s) \<longrightarrow>
           set (getAllMembers s) = {a. isMember s a} \<and> distinct (getAllMembers s)"
  proof
    assume z: "0 \<notin> set (getAllMembers s)"
    then have f: "filter (\<lambda>a. a \<noteq> 0) (getAllMembers s) = getAllMembers s"
      by (simp add: filter_id_conv) metis
    have "{a \<in> set (getAllMembers s). a \<noteq> 0} = set (getAllMembers s)" using z by auto
    then show "set (getAllMembers s) = {a. isMember s a} \<and> distinct (getAllMembers s)"
      using m d f by simp
  qed
  show ?thesis using m d r z by blast
qed

text \<open>
  The invariant at work: two members added, the first removed. The list is \<open>[7]\<close>, free
  of the zero address, so it is the set of members, and 7 sits at position 0.
\<close>

theorem index_consistency_witness:
  "getAllMembers (run (constructor \<lparr>sender = 1, timestamp = 0\<rparr>)
        [(\<lparr>sender = 1, timestamp = 0\<rparr>, AddMember 5 [] [] 0 0 [] 0),
         (\<lparr>sender = 1, timestamp = 0\<rparr>, AddMember 7 [] [] 0 0 [] 0),
         (\<lparr>sender = 1, timestamp = 0\<rparr>, RemoveMember 5)]) = [7]
   \<and> {a. isMember (run (constructor \<lparr>sender = 1, timestamp = 0\<rparr>)
        [(\<lparr>sender = 1, timestamp = 0\<rparr>, AddMember 5 [] [] 0 0 [] 0),
         (\<lparr>sender = 1, timestamp = 0\<rparr>, AddMember 7 [] [] 0 0 [] 0),
         (\<lparr>sender = 1, timestamp = 0\<rparr>, RemoveMember 5)]) a} = {7}
   \<and> memberIndex (run (constructor \<lparr>sender = 1, timestamp = 0\<rparr>)
        [(\<lparr>sender = 1, timestamp = 0\<rparr>, AddMember 5 [] [] 0 0 [] 0),
         (\<lparr>sender = 1, timestamp = 0\<rparr>, AddMember 7 [] [] 0 0 [] 0),
         (\<lparr>sender = 1, timestamp = 0\<rparr>, RemoveMember 5)]) 7 = 0"
proof -
  let ?s = "run (constructor \<lparr>sender = 1, timestamp = 0\<rparr>)
        [(\<lparr>sender = 1, timestamp = 0\<rparr>, AddMember 5 [] [] 0 0 [] 0),
         (\<lparr>sender = 1, timestamp = 0\<rparr>, AddMember 7 [] [] 0 0 [] 0),
         (\<lparr>sender = 1, timestamp = 0\<rparr>, RemoveMember 5)]"
  note ic = index_consistency [OF refl, of "\<lparr>sender = 1, timestamp = 0\<rparr>"
        "[(\<lparr>sender = 1, timestamp = 0\<rparr>, AddMember 5 [] [] 0 0 [] 0),
         (\<lparr>sender = 1, timestamp = 0\<rparr>, AddMember 7 [] [] 0 0 [] 0),
         (\<lparr>sender = 1, timestamp = 0\<rparr>, RemoveMember 5)]"]
  have l: "getAllMembers ?s = [7]"
    by (simp add: run_def transact_def constructor_def addMember_def removeMember_def
        onlyOwner_def memberDoesNotExist_def memberExists_def getAllMembers_def zeroMember_def)
  have z: "0 \<notin> set (getAllMembers ?s)" by (simp only: l) simp
  have "set (getAllMembers ?s) = {a. isMember ?s a}"
    using ic z by blast
  then have m: "{a. isMember ?s a} = {7}" by (simp only: l) simp
  have "\<forall>a \<in> set (getAllMembers ?s). a \<noteq> 0 \<longrightarrow> memberIndex ?s a < length (getAllMembers ?s)"
    using ic by blast
  then have "memberIndex ?s 7 = 0" by (simp only: l) simp
  then show ?thesis using l m by simp
qed

text \<open>
  As stated the invariant fails: the owner may add the zero address, which is then listed
  without being a member, and adding it twice lists it twice.
\<close>

theorem index_consistency_counterexample:
  "0 \<in> set (getAllMembers (run (constructor \<lparr>sender = 1, timestamp = 0\<rparr>)
        [(\<lparr>sender = 1, timestamp = 0\<rparr>, AddMember 0 [] [] 0 0 [] 0)]))
   \<and> \<not> isMember (run (constructor \<lparr>sender = 1, timestamp = 0\<rparr>)
        [(\<lparr>sender = 1, timestamp = 0\<rparr>, AddMember 0 [] [] 0 0 [] 0)]) 0
   \<and> \<not> distinct (getAllMembers (run (constructor \<lparr>sender = 1, timestamp = 0\<rparr>)
        [(\<lparr>sender = 1, timestamp = 0\<rparr>, AddMember 0 [] [] 0 0 [] 0),
         (\<lparr>sender = 1, timestamp = 0\<rparr>, AddMember 0 [] [] 0 0 [] 0)]))"
  by (simp add: run_def transact_def constructor_def addMember_def onlyOwner_def
      memberDoesNotExist_def getAllMembers_def isMember_def zeroMember_def)

section \<open>Authorization\<close>

text \<open>
  C2. In any state of either contract, every mutating call (add, remove, status update,
  details update, subnet-detail update, transfer of the authority) sent by an address
  other than the current owner or manager reverts with Unauthorized; the transaction
  leaves the whole state (records, array, reverse map, counter, authority) as it was and
  logs nothing.
\<close>

theorem authority_exclusivity:
  "(sender e \<noteq> owner s \<longrightarrow>
      exec s e c = Inl Unauthorized \<and> transact s (e, c) = s \<and> logs s (e, c) = []) \<and>
   (sender e \<noteq> manager t \<longrightarrow>
      exec_mgr t e d = Inl Unauthorized \<and> transact_mgr t (e, d) = t \<and> logs_mgr t (e, d) = [])"
proof (intro conjI impI)
  assume n: "sender e \<noteq> owner s"
  show x: "exec s e c = Inl Unauthorized"
    using n by (cases c)
      (simp_all add: addMember_def removeMember_def updateMemberStatus_def
        updateMemberDetails_def transferOwnership_def onlyOwner_def)
  show "transact s (e, c) = s" by (simp add: transact_def x)
  show "logs s (e, c) = []" by (simp add: logs_def x)
next
  assume n: "sender e \<noteq> manager t"
  show x: "exec_mgr t e d = Inl Unauthorized"
    using n by (cases d)
      (simp_all add: addMember_mgr_def removeMember_mgr_def updateMemberStatus_mgr_def
        updateMemberDetails_mgr_def transferManagerRole_def updateSubnetMemberDetail_def
        onlyManager_def)
  show "transact_mgr t (e, d) = t" by (simp add: transact_mgr_def x)
  show "logs_mgr t (e, d) = []" by (simp add: logs_mgr_def x)
qed

text \<open>A stranger's \<open>removeMember\<close> and \<open>transferManagerRole\<close> on the fresh contracts.\<close>

theorem authority_exclusivity_witness:
  "sender \<lparr>sender = 2, timestamp = 7\<rparr> \<noteq> owner (constructor \<lparr>sender = 1, timestamp = 0\<rparr>)
   \<and> removeMember (constructor \<lparr>sender = 1, timestamp = 0\<rparr>) \<lparr>sender = 2, timestamp = 7\<rparr> 5
       = Inl Unauthorized
   \<and> sender \<lparr>sender = 2, timestamp = 7\<rparr> \<noteq> manager (constructor_mgr \<lparr>sender = 1, timestamp = 0\<rparr>)
   \<and> transferManagerRole (constructor_mgr \<lparr>sender = 1, timestamp = 0\<rparr>)
        \<lparr>sender = 2, timestamp = 7\<rparr> 2 = Inl Unauthorized"
  using authority_exclusivity [of "\<lparr>sender = 2, timestamp = 7\<rparr>"
      "constructor \<lparr>sender = 1, timestamp = 0\<rparr>" "RemoveMember 5"
      "constructor_mgr \<lparr>sender = 1, timestamp = 0\<rparr>" "TransferManagerRole 2"]
  by (simp add: constructor_def constructor_mgr_def)

text \<open>
  C6 (amended). \<open>transferManagerRole\<close> reverts with Unauthorized when the caller is not
  the manager; with InvalidTarget when the caller is the manager and the new manager is
  the zero address; otherwise it makes the new address the manager and emits
  \<open>ManagerChanged\<close> with the old and the new manager. After it every mutating call by the
  new manager passes the authorization check, and every mutating call by the old manager
  reverts with Unauthorized provided the new manager is another address than the old one.
\<close>

theorem authority_transfer:
  "(sender e \<noteq> manager s \<longrightarrow> transferManagerRole s e n = Inl Unauthorized) \<and>
   (sender e = manager s \<and> n = 0 \<longrightarrow> transferManagerRole s e n = Inl InvalidTarget) \<and>
   (sender e = manager s \<and> n \<noteq> 0 \<longrightarrow>
      transferManagerRole s e n = Inr (s\<lparr>manager := n\<rparr>, [ManagerChanged (manager s) n]) \<and>
      transact_mgr s (e, TransferManagerRole n) = s\<lparr>manager := n\<rparr> \<and>
      (sender e' = n \<longrightarrow>
         exec_mgr (transact_mgr s (e, TransferManagerRole n)) e' c \<noteq> Inl Unauthorized) \<and>
      (sender e' = manager s \<and> n \<noteq> manager s \<longrightarrow>
         exec_mgr (transact_mgr s (e, TransferManagerRole n)) e' c = Inl Unauthorized))"
proof (intro conjI impI)
  show "sender e \<noteq> manager s \<Longrightarrow> transferManagerRole s e n = Inl Unauthorized"
    by (simp add: transferManagerRole_def onlyManager_def)
  show "sender e = manager s \<and> n = 0 \<Longrightarrow> transferManagerRole s e n = Inl InvalidTarget"
    by (simp add: transferManagerRole_def onlyManager_def)
next
  assume a: "sender e = manager s \<and> n \<noteq> 0"
  show r: "transferManagerRole s e n = Inr (s\<lparr>manager := n\<rparr>, [ManagerChanged (manager s) n])"
    using a by (simp add: transferManagerRole_def onlyManager_def)
  show t: "transact_mgr s (e, TransferManagerRole n) = s\<lparr>manager := n\<rparr>"
    using r by (simp add: transact_mgr_def)
  show "exec_mgr (transact_mgr s (e, TransferManagerRole n)) e' c \<noteq> Inl Unauthorized"
    if "sender e' = n"
    using that unfolding t
    by (cases c)
      (auto simp: addMember_mgr_def removeMember_mgr_def updateMemberStatus_mgr_def
        updateMemberDetails_mgr_def transferManagerRole_def updateSubnetMemberDetail_def
        onlyManager_def Let_def split: prod.splits)
  show "exec_mgr (transact_mgr s (e, TransferManagerRole n)) e' c = Inl Unauthorized"
    if "sender e' = manager s \<and> n \<noteq> manager s"
    using that unfolding t
    by (cases c)
      (auto simp: addMember_mgr_def removeMember_mgr_def updateMemberStatus_mgr_def
        updateMemberDetails_mgr_def transferManagerRole_def updateSubnetMemberDetail_def
        onlyManager_def)
qed

text \<open>Manager 1 hands over to 2 and is then refused.\<close>

theorem authority_transfer_witness:
  "sender \<lparr>sender = 1, timestamp = 5\<rparr> = manager (constructor_mgr \<lparr>sender = 1, timestamp = 0\<rparr>)
   \<and> (2 :: address) \<noteq> 0
   \<and> sender \<lparr>sender = 1, timestamp = 6\<rparr> = manager (constructor_mgr \<lparr>sender = 1, timestamp = 0\<rparr>)
   \<and> 2 \<noteq> manager (constructor_mgr \<lparr>sender = 1, timestamp = 0\<rparr>)
   \<and> transferManagerRole (constructor_mgr \<lparr>sender = 1, timestamp = 0\<rparr>)
        \<lparr>sender = 1, timestamp = 5\<rparr> 2 =
      Inr ((constructor_mgr \<lparr>sender = 1, timestamp = 0\<rparr>)\<lparr>manager := 2\<rparr>,
           [ManagerChanged (manager (constructor_mgr \<lparr>sender = 1, timestamp = 0\<rparr>)) 2])
   \<and> exec_mgr (transact_mgr (constructor_mgr \<lparr>sender = 1, timestamp = 0\<rparr>)
        (\<lparr>sender = 1, timestamp = 5\<rparr>, TransferManagerRole 2))
        \<lparr>sender = 1, timestamp = 6\<rparr> (RemoveMember_mgr 9) = Inl Unauthorized"
proof -
  have h1: "sender \<lparr>sender = 1, timestamp = 5\<rparr> =
      manager (constructor_mgr \<lparr>sender = 1, timestamp = 0\<rparr>) \<and> (2 :: address) \<noteq> 0"
    by (simp add: constructor_mgr_def)
  have h2: "sender \<lparr>sender = 1, timestamp = 6\<rparr> =
      manager (constructor_mgr \<lparr>sender = 1, timestamp = 0\<rparr>) \<and>
      2 \<noteq> manager (constructor_mgr \<lparr>sender = 1, timestamp = 0\<rparr>)"
    by (simp add: constructor_mgr_def)
  show ?thesis
    using h1 h2 authority_transfer [of "\<lparr>sender = 1, timestamp = 5\<rparr>"
      "constructor_mgr \<lparr>sender = 1, timestamp = 0\<rparr>" 2 "\<lparr>sender = 1, timestamp = 6\<rparr>"
      "RemoveMember_mgr 9"]
    by blast
qed

text \<open>
  A manager may name itself: the transfer succeeds and the old manager, being the new
  one, is still let in.
\<close>

theorem authority_transfer_counterexample:
  "transferManagerRole (constructor_mgr \<lparr>sender = 1, timestamp = 0\<rparr>)
        \<lparr>sender = 1, timestamp = 5\<rparr> 1 =
      Inr (constructor_mgr \<lparr>sender = 1, timestamp = 0\<rparr>, [ManagerChanged 1 1])
   \<and> exec_mgr (transact_mgr (constructor_mgr \<lparr>sender = 1, timestamp = 0\<rparr>)
        (\<lparr>sender = 1, timestamp = 5\<rparr>, TransferManagerRole 1))
        \<lparr>sender = 1, timestamp = 6\<rparr> (UpdateMemberStatus_mgr 9 False) \<noteq> Inl Unauthorized"
  by (simp add: transact_mgr_def constructor_mgr_def transferManagerRole_def
      updateMemberStatus_mgr_def onlyManager_def memberExists_def zeroMember_def)

section \<open>Adding members\<close>

text \<open>
  C4 (amended). For every nonzero address X that is not a member, \<open>addMember\<close> by the
  owner succeeds, emits \<open>MemberAdded\<close>, and \<open>getMember\<close> then returns the record with the
  address field X, the supplied name, key, serial, platform version, host and port, the
  active flag set, and both timestamps equal to the time of the call.
\<close>

theorem add_get_roundtrip:
  assumes "X \<noteq> 0" and "\<not> isMember s X" and "sender e = owner s"
  shows "exec s e (AddMember X dn pk ser pv h p) =
           Inr (transact s (e, AddMember X dn pk ser pv h p), [MemberAdded X dn]) \<and>
         getMember (transact s (e, AddMember X dn pk ser pv h p)) X =
           Inr \<lparr> x500Name = dn, memberAddress = X, publicKey = pk, isActive = True,
                 joinedAt = timestamp e, lastUpdated = timestamp e, serial = ser,
                 platformVersion = pv, host = h, port = p \<rparr>"
  using assms
  by (simp add: transact_def addMember_def onlyOwner_def memberDoesNotExist_def
      isMember_def getMember_def memberExists_def)

text \<open>The spec's node N1 on a fresh contract.\<close>

theorem add_get_roundtrip_witness:
  "(5 :: address) \<noteq> 0 \<and> \<not> isMember (constructor \<lparr>sender = 1, timestamp = 0\<rparr>) 5
   \<and> sender \<lparr>sender = 1, timestamp = 9\<rparr> = owner (constructor \<lparr>sender = 1, timestamp = 0\<rparr>)
   \<and> getMember (transact (constructor \<lparr>sender = 1, timestamp = 0\<rparr>)
        (\<lparr>sender = 1, timestamp = 9\<rparr>, AddMember 5 ''CN=Node1'' [1, 2] 1001 1 ''h1'' 30303)) 5 =
      Inr \<lparr> x500Name = ''CN=Node1'', memberAddress = 5, publicKey = [1, 2], isActive = True,
            joinedAt = 9, lastUpdated = 9, serial = 1001, platformVersion = 1,
            host = ''h1'', port = 30303 \<rparr>"
proof -
  have a: "(5 :: address) \<noteq> 0" by simp
  have b: "\<not> isMember (constructor \<lparr>sender = 1, timestamp = 0\<rparr>) 5"
    by (simp add: isMember_def constructor_def zeroMember_def)
  have c: "sender \<lparr>sender = 1, timestamp = 9\<rparr> = owner (constructor \<lparr>sender = 1, timestamp = 0\<rparr>)"
    by (simp add: constructor_def)
  show ?thesis
    using a b c add_get_roundtrip [OF a b c, of "''CN=Node1''" "[1, 2]" 1001 1 "''h1''" 30303]
    by simp
qed

text \<open>
  Adding the zero address succeeds as well, but its record cannot be read back:
  \<open>getMember\<close> takes the zero address field for absence.
\<close>

theorem add_get_roundtrip_counterexample:
  "exec (constructor \<lparr>sender = 1, timestamp = 0\<rparr>) \<lparr>sender = 1, timestamp = 9\<rparr>
      (AddMember 0 ''CN=Node1'' [1, 2] 1001 1 ''h1'' 30303) =
     Inr (transact (constructor \<lparr>sender = 1, timestamp = 0\<rparr>)
        (\<lparr>sender = 1, timestamp = 9\<rparr>, AddMember 0 ''CN=Node1'' [1, 2] 1001 1 ''h1'' 30303),
        [MemberAdded 0 ''CN=Node1''])
   \<and> getMember (transact (constructor \<lparr>sender = 1, timestamp = 0\<rparr>)
        (\<lparr>sender = 1, timestamp = 9\<rparr>, AddMember 0 ''CN=Node1'' [1, 2] 1001 1 ''h1'' 30303)) 0 =
      Inl NotFound"
  by (simp add: transact_def constructor_def addMember_def onlyOwner_def
      memberDoesNotExist_def getMember_def memberExists_def zeroMember_def)

text \<open>An add by the authority leaves a nonzero address present, whether it succeeds or not.\<close>

lemma addMember_present:
  assumes "X \<noteq> 0" and "sender e = owner s"
  shows "memberAddress (members (transact s (e, AddMember X dn pk ser pv h p)) X) \<noteq> 0 \<and>
         owner (transact s (e, AddMember X dn pk ser pv h p)) = owner s"
  using assms
  by (simp add: transact_def addMember_def onlyOwner_def memberDoesNotExist_def)

lemma addMember_mgr_present:
  assumes "X \<noteq> 0" and "sender e = manager t"
  shows "memberAddress (members (transact_mgr t (e, AddMember_mgr X dn pk ser pv h p)) X) \<noteq> 0 \<and>
         manager (transact_mgr t (e, AddMember_mgr X dn pk ser pv h p)) = manager t"
  using assms
  by (simp add: transact_mgr_def addMember_mgr_def onlyManager_def memberDoesNotExist_def)

text \<open>
  C5 (amended). For every nonzero address X and any two argument tuples, when the
  authority calls add for X twice in a row, the second call reverts with AlreadyExists
  and the state after both calls is the state after the first alone, in both contracts.
\<close>

theorem failed_add_idempotent:
  assumes "X \<noteq> 0"
  shows "(sender e1 = owner s \<and> sender e2 = owner s \<longrightarrow>
            exec (transact s (e1, AddMember X dn1 pk1 ser1 pv1 h1 p1)) e2
                 (AddMember X dn2 pk2 ser2 pv2 h2 p2) = Inl AlreadyExists \<and>
            run s [(e1, AddMember X dn1 pk1 ser1 pv1 h1 p1),
                   (e2, AddMember X dn2 pk2 ser2 pv2 h2 p2)] =
            run s [(e1, AddMember X dn1 pk1 ser1 pv1 h1 p1)]) \<and>
         (sender e1 = manager t \<and> sender e2 = manager t \<longrightarrow>
            exec_mgr (transact_mgr t (e1, AddMember_mgr X dn1 pk1 ser1 pv1 h1 p1)) e2
                 (AddMember_mgr X dn2 pk2 ser2 pv2 h2 p2) = Inl AlreadyExists \<and>
            run_mgr t [(e1, AddMember_mgr X dn1 pk1 ser1 pv1 h1 p1),
                       (e2, AddMember_mgr X dn2 pk2 ser2 pv2 h2 p2)] =
            run_mgr t [(e1, AddMember_mgr X dn1 pk1 ser1 pv1 h1 p1)])"
proof (intro conjI impI)
  let ?s1 = "transact s (e1, AddMember X dn1 pk1 ser1 pv1 h1 p1)"
  assume a: "sender e1 = owner s \<and> sender e2 = owner s"
  then have a1: "sender e1 = owner s" by simp
  note p = addMember_present [OF assms a1, of dn1 pk1 ser1 pv1 h1 p1]
  show x: "exec ?s1 e2 (AddMember X dn2 pk2 ser2 pv2 h2 p2) = Inl AlreadyExists"
    using p a by (simp add: addMember_def onlyOwner_def memberDoesNotExist_def)
  have "transact ?s1 (e2, AddMember X dn2 pk2 ser2 pv2 h2 p2) = ?s1"
    using x by (simp add: transact_def)
  then show "run s [(e1, AddMember X dn1 pk1 ser1 pv1 h1 p1),
                   (e2, AddMember X dn2 pk2 ser2 pv2 h2 p2)] =
            run s [(e1, AddMember X dn1 pk1 ser1 pv1 h1 p1)]"
    by (simp add: run_def)
next
  let ?t1 = "transact_mgr t (e1, AddMember_mgr X dn1 pk1 ser1 pv1 h1 p1)"
  assume a: "sender e1 = manager t \<and> sender e2 = manager t"
  then have a1: "sender e1 = manager t" by simp
  note p = addMember_mgr_present [OF assms a1, of dn1 pk1 ser1 pv1 h1 p1]
  show x: "exec_mgr ?t1 e2 (AddMember_mgr X dn2 pk2 ser2 pv2 h2 p2) = Inl AlreadyExists"
    using p a by (simp add: addMember_mgr_def onlyManager_def memberDoesNotExist_def)
  have "transact_mgr ?t1 (e2, AddMember_mgr X dn2 pk2 ser2 pv2 h2 p2) = ?t1"
    using x by (simp add: transact_mgr_def)
  then show "run_mgr t [(e1, AddMember_mgr X dn1 pk1 ser1 pv1 h1 p1),
                       (e2, AddMember_mgr X dn2 pk2 ser2 pv2 h2 p2)] =
            run_mgr t [(e1, AddMember_mgr X dn1 pk1 ser1 pv1 h1 p1)]"
    by (simp add: run_mgr_def)
qed

text \<open>The same address added twice, with different arguments, to the fresh contracts.\<close>

theorem failed_add_idempotent_witness:
  "(5 :: address) \<noteq> 0
   \<and> sender \<lparr>sender = 1, timestamp = 7\<rparr> = owner (constructor \<lparr>sender = 1, timestamp = 0\<rparr>)
   \<and> sender \<lparr>sender = 1, timestamp = 8\<rparr> = owner (constructor \<lparr>sender = 1, timestamp = 0\<rparr>)
   \<and> exec (transact (constructor \<lparr>sender = 1, timestamp = 0\<rparr>)
             (\<lparr>sender = 1, timestamp = 7\<rparr>, AddMember 5 ''a'' [1] 1 1 ''h'' 1))
        \<lparr>sender = 1, timestamp = 8\<rparr> (AddMember 5 ''b'' [2] 2 2 ''g'' 2) = Inl AlreadyExists
   \<and> sender \<lparr>sender = 1, timestamp = 8\<rparr> = manager (constructor_mgr \<lparr>sender = 1, timestamp = 0\<rparr>)
   \<and> exec_mgr (transact_mgr (constructor_mgr \<lparr>sender = 1, timestamp = 0\<rparr>)
             (\<lparr>sender = 1, timestamp = 7\<rparr>, AddMember_mgr 5 ''a'' [1] 1 1 ''h'' 1))
        \<lparr>sender = 1, timestamp = 8\<rparr> (AddMember_mgr 5 ''b'' [2] 2 2 ''g'' 2) = Inl AlreadyExists"
proof -
  have a: "(5 :: address) \<noteq> 0" by simp
  show ?thesis
    using a failed_add_idempotent [OF a, of "\<lparr>sender = 1, timestamp = 7\<rparr>"
      "constructor \<lparr>sender = 1, timestamp = 0\<rparr>" "\<lparr>sender = 1, timestamp = 8\<rparr>"
      "''a''" "[1]" 1 1 "''h''" 1 "''b''" "[2]" 2 2 "''g''" 2
      "constructor_mgr \<lparr>sender = 1, timestamp = 0\<rparr>"]
    by (simp add: constructor_def constructor_mgr_def)
qed

text \<open>
  For the zero address the second add is not refused: it succeeds and lists the address
  a second time.
\<close>

theorem failed_add_idempotent_counterexample:
  "exec (transact (constructor \<lparr>sender = 1, timestamp = 0\<rparr>)
             (\<lparr>sender = 1, timestamp = 7\<rparr>, AddMember 0 ''a'' [1] 1 1 ''h'' 1))
        \<lparr>sender = 1, timestamp = 8\<rparr> (AddMember 0 ''b'' [2] 2 2 ''g'' 2) \<noteq> Inl AlreadyExists
   \<and> getAllMembers (run (constructor \<lparr>sender = 1, timestamp = 0\<rparr>)
        [(\<lparr>sender = 1, timestamp = 7\<rparr>, AddMember 0 ''a'' [1] 1 1 ''h'' 1),
         (\<lparr>sender = 1, timestamp = 8\<rparr>, AddMember 0 ''b'' [2] 2 2 ''g'' 2)]) = [0, 0]
   \<and> getAllMembers (run (constructor \<lparr>sender = 1, timestamp = 0\<rparr>)
        [(\<lparr>sender = 1, timestamp = 7\<rparr>, AddMember 0 ''a'' [1] 1 1 ''h'' 1)]) = [0]"
  by (simp add: run_def transact_def constructor_def addMember_def onlyOwner_def
      memberDoesNotExist_def getAllMembers_def zeroMember_def)

section \<open>Updating members\<close>

text \<open>
  C9 (amended). For a member, \<open>updateMemberStatus\<close> to inactive by the authority
  succeeds, emits \<open>MemberUpdated\<close>, clears the active flag and sets \<open>lastUpdated\<close> to the
  block timestamp of the call; the new value is strictly greater than the previous one
  exactly when that timestamp is later than the previous value. Both contracts.
\<close>

theorem status_update_timestamp:
  "(sender e = owner s \<and> isMember s a \<longrightarrow>
      exec s e (UpdateMemberStatus a False) =
        Inr (transact s (e, UpdateMemberStatus a False), [MemberUpdated a]) \<and>
      \<not> isActive (members (transact s (e, UpdateMemberStatus a False)) a) \<and>
      lastUpdated (members (transact s (e, UpdateMemberStatus a False)) a) = timestamp e \<and>
      (lastUpdated (members s a) < lastUpdated (members (transact s (e, UpdateMemberStatus a False)) a)
         \<longleftrightarrow> lastUpdated (members s a) < timestamp e)) \<and>
   (sender e = manager t \<and> isMember t a \<longrightarrow>
      exec_mgr t e (UpdateMemberStatus_mgr a False) =
        Inr (transact_mgr t (e, UpdateMemberStatus_mgr a False), [MemberUpdated a]) \<and>
      \<not> isActive (members (transact_mgr t (e, UpdateMemberStatus_mgr a False)) a) \<and>
      lastUpdated (members (transact_mgr t (e, UpdateMemberStatus_mgr a False)) a) = timestamp e \<and>
      (lastUpdated (members t a)
          < lastUpdated (members (transact_mgr t (e, UpdateMemberStatus_mgr a False)) a)
         \<longleftrightarrow> lastUpdated (members t a) < timestamp e))"
  by (simp add: transact_def transact_mgr_def updateMemberStatus_def updateMemberStatus_mgr_def
      onlyOwner_def onlyManager_def memberExists_def isMember_def)

text \<open>Added at time 100, deactivated at time 200.\<close>

theorem status_update_timestamp_witness:
  "sender \<lparr>sender = 1, timestamp = 200\<rparr> =
      owner (transact (constructor \<lparr>sender = 1, timestamp = 0\<rparr>)
        (\<lparr>sender = 1, timestamp = 100\<rparr>, AddMember 5 ''CN=Node1'' [] 1001 1 ''h1'' 30303))
   \<and> isMember (transact (constructor \<lparr>sender = 1, timestamp = 0\<rparr>)
        (\<lparr>sender = 1, timestamp = 100\<rparr>, AddMember 5 ''CN=Node1'' [] 1001 1 ''h1'' 30303)) 5
   \<and> lastUpdated (members (transact (transact (constructor \<lparr>sender = 1, timestamp = 0\<rparr>)
        (\<lparr>sender = 1, timestamp = 100\<rparr>, AddMember 5 ''CN=Node1'' [] 1001 1 ''h1'' 30303))
        (\<lparr>sender = 1, timestamp = 200\<rparr>, UpdateMemberStatus 5 False)) 5) = 200"
proof -
  let ?s = "transact (constructor \<lparr>sender = 1, timestamp = 0\<rparr>)
        (\<lparr>sender = 1, timestamp = 100\<rparr>, AddMember 5 ''CN=Node1'' [] 1001 1 ''h1'' 30303)"
  have a: "sender \<lparr>sender = 1, timestamp = 200\<rparr> = owner ?s"
    by (simp add: transact_def constructor_def addMember_def onlyOwner_def
        memberDoesNotExist_def zeroMember_def)
  have b: "isMember ?s 5"
    by (simp add: transact_def constructor_def addMember_def onlyOwner_def
        memberDoesNotExist_def zeroMember_def isMember_def)
  show ?thesis
    using a b status_update_timestamp [of "\<lparr>sender = 1, timestamp = 200\<rparr>" ?s 5]
    by simp
qed

text \<open>
  Two transactions of one block carry the same timestamp: a member added and deactivated
  at time 100 keeps \<open>lastUpdated = 100\<close>.
\<close>

theorem status_update_timestamp_counterexample:
  "sender \<lparr>sender = 1, timestamp = 100\<rparr> =
      owner (transact (constructor \<lparr>sender = 1, timestamp = 0\<rparr>)
        (\<lparr>sender = 1, timestamp = 100\<rparr>, AddMember 5 ''CN=Node1'' [] 1001 1 ''h1'' 30303))
   \<and> isMember (transact (constructor \<lparr>sender = 1, timestamp = 0\<rparr>)
        (\<lparr>sender = 1, timestamp = 100\<rparr>, AddMember 5 ''CN=Node1'' [] 1001 1 ''h1'' 30303)) 5
   \<and> \<not> isActive (members (transact (transact (constructor \<lparr>sender = 1, timestamp = 0\<rparr>)
        (\<lparr>sender = 1, timestamp = 100\<rparr>, AddMember 5 ''CN=Node1'' [] 1001 1 ''h1'' 30303))
        (\<lparr>sender = 1, timestamp = 100\<rparr>, UpdateMemberStatus 5 False)) 5)
   \<and> \<not> lastUpdated (members (transact (constructor \<lparr>sender = 1, timestamp = 0\<rparr>)
        (\<lparr>sender = 1, timestamp = 100\<rparr>, AddMember 5 ''CN=Node1'' [] 1001 1 ''h1'' 30303)) 5)
       < lastUpdated (members (transact (transact (constructor \<lparr>sender = 1, timestamp = 0\<rparr>)
        (\<lparr>sender = 1, timestamp = 100\<rparr>, AddMember 5 ''CN=Node1'' [] 1001 1 ''h1'' 30303))
        (\<lparr>sender = 1, timestamp = 100\<rparr>, UpdateMemberStatus 5 False)) 5)"
  by (simp add: transact_def constructor_def addMember_def updateMemberStatus_def onlyOwner_def
      memberDoesNotExist_def memberExists_def isMember_def zeroMember_def)

text \<open>
  C7. For a member, \<open>updateSubnetMemberDetail\<close> by the manager succeeds, emits
  \<open>MemberUpdated\<close>, overwrites the serial, platform version, host and port, sets
  \<open>lastUpdated\<close> to the time of the call and leaves the name, key, address, join time and
  active flag of the record, every other record, the list, the counter and the manager as
  they were; for an address that is not a member it reverts with NotFound. The client's
  composition on the Ownable contract (read the record, send the full update with the
  name and key just read) has the same effect and the same failure.
\<close>

theorem network_detail_frame:
  "(sender e = manager t \<and> isMember t a \<longrightarrow>
      updateSubnetMemberDetail t e a ser ver h p =
        Inr (transact_mgr t (e, UpdateSubnetMemberDetail a ser ver h p), [MemberUpdated a]) \<and>
      members (transact_mgr t (e, UpdateSubnetMemberDetail a ser ver h p)) a =
        \<lparr> x500Name = x500Name (members t a), memberAddress = memberAddress (members t a),
          publicKey = publicKey (members t a), isActive = isActive (members t a),
          joinedAt = joinedAt (members t a), lastUpdated = timestamp e, serial = ser,
          platformVersion = ver, host = h, port = p \<rparr> \<and>
      (b \<noteq> a \<longrightarrow> members (transact_mgr t (e, UpdateSubnetMemberDetail a ser ver h p)) b
                   = members t b) \<and>
      getAllMembers (transact_mgr t (e, UpdateSubnetMemberDetail a ser ver h p))
        = getAllMembers t \<and>
      memberCount (transact_mgr t (e, UpdateSubnetMemberDetail a ser ver h p)) = memberCount t \<and>
      manager (transact_mgr t (e, UpdateSubnetMemberDetail a ser ver h p)) = manager t) \<and>
   (sender e = manager t \<and> \<not> isMember t a \<longrightarrow>
      updateSubnetMemberDetail t e a ser ver h p = Inl NotFound \<and>
      transact_mgr t (e, UpdateSubnetMemberDetail a ser ver h p) = t) \<and>
   (sender e = owner s \<and> isMember s a \<longrightarrow>
      (\<exists>s'. updateSubnetMemberDetail_client s e a ser ver h p = Inr (s', [MemberUpdated a]) \<and>
         members s' a =
           \<lparr> x500Name = x500Name (members s a), memberAddress = memberAddress (members s a),
             publicKey = publicKey (members s a), isActive = isActive (members s a),
             joinedAt = joinedAt (members s a), lastUpdated = timestamp e, serial = ser,
             platformVersion = ver, host = h, port = p \<rparr> \<and>
         (b \<noteq> a \<longrightarrow> members s' b = members s b) \<and>
         getAllMembers s' = getAllMembers s \<and> memberIndex s' = memberIndex s \<and>
         owner s' = owner s)) \<and>
   (\<not> isMember s a \<longrightarrow> updateSubnetMemberDetail_client s e a ser ver h p = Inl NotFound)"
proof (intro conjI impI)
  assume a: "sender e = manager t \<and> isMember t a"
  then have r: "updateSubnetMemberDetail t e a ser ver h p =
      Inr (t\<lparr> members := (members t)
                   (a := (members t a)\<lparr> serial := ser, platformVersion := ver, host := h,
                          port := p, lastUpdated := timestamp e \<rparr>) \<rparr>, [MemberUpdated a])"
    by (simp add: updateSubnetMemberDetail_def onlyManager_def memberExists_def isMember_def)
  then have tr: "transact_mgr t (e, UpdateSubnetMemberDetail a ser ver h p) =
      t\<lparr> members := (members t)
                   (a := (members t a)\<lparr> serial := ser, platformVersion := ver, host := h,
                          port := p, lastUpdated := timestamp e \<rparr>) \<rparr>"
    by (simp add: transact_mgr_def)
  show "updateSubnetMemberDetail t e a ser ver h p =
        Inr (transact_mgr t (e, UpdateSubnetMemberDetail a ser ver h p), [MemberUpdated a])"
    by (simp add: r tr)
  show "members (transact_mgr t (e, UpdateSubnetMemberDetail a ser ver h p)) a =
        \<lparr> x500Name = x500Name (members t a), memberAddress = memberAddress (members t a),
          publicKey = publicKey (members t a), isActive = isActive (members t a),
          joinedAt = joinedAt (members t a), lastUpdated = timestamp e, serial = ser,
          platformVersion = ver, host = h, port = p \<rparr>"
    by (simp add: tr)
  show "members (transact_mgr t (e, UpdateSubnetMemberDetail a ser ver h p)) b = members t b"
    if "b \<noteq> a" using that by (simp add: tr)
  show "getAllMembers (transact_mgr t (e, UpdateSubnetMemberDetail a ser ver h p))
        = getAllMembers t"
    by (simp add: tr getAllMembers_def)
  show "memberCount (transact_mgr t (e, UpdateSubnetMemberDetail a ser ver h p)) = memberCount t"
    by (simp add: tr)
  show "manager (transact_mgr t (e, UpdateSubnetMemberDetail a ser ver h p)) = manager t"
    by (simp add: tr)
next
  assume a: "sender e = manager t \<and> \<not> isMember t a"
  then show r: "updateSubnetMemberDetail t e a ser ver h p = Inl NotFound"
    by (simp add: updateSubnetMemberDetail_def onlyManager_def memberExists_def isMember_def)
  show "transact_mgr t (e, UpdateSubnetMemberDetail a ser ver h p) = t"
    by (simp add: transact_mgr_def r)
next
  assume a: "sender e = owner s \<and> isMember s a"
  then show "\<exists>s'. updateSubnetMemberDetail_client s e a ser ver h p = Inr (s', [MemberUpdated a]) \<and>
         members s' a =
           \<lparr> x500Name = x500Name (members s a), memberAddress = memberAddress (members s a),
             publicKey = publicKey (members s a), isActive = isActive (members s a),
             joinedAt = joinedAt (members s a), lastUpdated = timestamp e, serial = ser,
             platformVersion = ver, host = h, port = p \<rparr> \<and>
         (b \<noteq> a \<longrightarrow> members s' b = members s b) \<and>
         getAllMembers s' = getAllMembers s \<and> memberIndex s' = memberIndex s \<and>
         owner s' = owner s"
    by (simp add: updateSubnetMemberDetail_client_def getMember_def updateMemberDetails_def
        onlyOwner_def memberExists_def isMember_def getAllMembers_def)
next
  assume "\<not> isMember s a"
  then show "updateSubnetMemberDetail_client s e a ser ver h p = Inl NotFound"
    by (simp add: updateSubnetMemberDetail_client_def getMember_def memberExists_def isMember_def)
qed

text \<open>Node 5 joins at time 100 and gets new network details at time 200.\<close>

theorem network_detail_frame_witness:
  "sender \<lparr>sender = 1, timestamp = 200\<rparr> =
      manager (transact_mgr (constructor_mgr \<lparr>sender = 1, timestamp = 0\<rparr>)
        (\<lparr>sender = 1, timestamp = 100\<rparr>, AddMember_mgr 5 ''CN=Node1'' [17] 1001 1 ''h1'' 30303))
   \<and> isMember (transact_mgr (constructor_mgr \<lparr>sender = 1, timestamp = 0\<rparr>)
        (\<lparr>sender = 1, timestamp = 100\<rparr>, AddMember_mgr 5 ''CN=Node1'' [17] 1001 1 ''h1'' 30303)) 5
   \<and> members (transact_mgr (transact_mgr (constructor_mgr \<lparr>sender = 1, timestamp = 0\<rparr>)
        (\<lparr>sender = 1, timestamp = 100\<rparr>, AddMember_mgr 5 ''CN=Node1'' [17] 1001 1 ''h1'' 30303))
        (\<lparr>sender = 1, timestamp = 200\<rparr>, UpdateSubnetMemberDetail 5 2002 2 ''h2'' 30304)) 5 =
      \<lparr> x500Name = ''CN=Node1'', memberAddress = 5, publicKey = [17], isActive = True,
        joinedAt = 100, lastUpdated = 200, serial = 2002, platformVersion = 2,
        host = ''h2'', port = 30304 \<rparr>"
proof -
  let ?t = "transact_mgr (constructor_mgr \<lparr>sender = 1, timestamp = 0\<rparr>)
        (\<lparr>sender = 1, timestamp = 100\<rparr>, AddMember_mgr 5 ''CN=Node1'' [17] 1001 1 ''h1'' 30303)"
  have t: "?t = \<lparr> members = (\<lambda>_. zeroMember)(5 := \<lparr> x500Name = ''CN=Node1'', memberAddress = 5,
                publicKey = [17], isActive = True, joinedAt = 100, lastUpdated = 100,
                serial = 1001, platformVersion = 1, host = ''h1'', port = 30303 \<rparr>),
              memberAddresses = [5], manager = 1, memberCount = 1 \<rparr>"
    by (simp add: transact_mgr_def constructor_mgr_def addMember_mgr_def onlyManager_def
        memberDoesNotExist_def zeroMember_def)
  have h: "sender \<lparr>sender = 1, timestamp = 200\<rparr> = manager ?t \<and> isMember ?t 5"
    by (simp add: t isMember_def)
  have "members (transact_mgr ?t
          (\<lparr>sender = 1, timestamp = 200\<rparr>, UpdateSubnetMemberDetail 5 2002 2 ''h2'' 30304)) 5 =
        \<lparr> x500Name = x500Name (members ?t 5), memberAddress = memberAddress (members ?t 5),
          publicKey = publicKey (members ?t 5), isActive = isActive (members ?t 5),
          joinedAt = joinedAt (members ?t 5), lastUpdated = timestamp \<lparr>sender = 1, timestamp = 200\<rparr>,
          serial = 2002, platformVersion = 2, host = ''h2'', port = 30304 \<rparr>"
    using h network_detail_frame [where t = "?t" and e = "\<lparr>sender = 1, timestamp = 200\<rparr>"
        and a = 5 and ser = 2002 and ver = 2 and h = "''h2''" and p = 30304]
    by blast
  moreover have "members ?t 5 = \<lparr> x500Name = ''CN=Node1'', memberAddress = 5,
                publicKey = [17], isActive = True, joinedAt = 100, lastUpdated = 100,
                serial = 1001, platformVersion = 1, host = ''h1'', port = 30303 \<rparr>"
    by (simp add: t)
  ultimately show ?thesis using h by simp
qed

section \<open>Removing members\<close>

text \<open>
  C3 (amended). On a freshly deployed contract of either version, after the authority
  adds three distinct nonzero addresses A, B, C in that order and then removes B, the
  list is exactly \<open>[A, C]\<close>, B is not a member, and A and C are members.
\<close>

theorem swap_removal:
  assumes nz: "A \<noteq> 0" "B \<noteq> 0" "C \<noteq> 0"
    and ne: "A \<noteq> B" "A \<noteq> C" "B \<noteq> C"
    and au: "sender e1 = sender e0" "sender e2 = sender e0" "sender e3 = sender e0"
            "sender e4 = sender e0"
  shows "getAllMembers (run (constructor e0)
            [(e1, AddMember A dnA pkA sA vA hA pA), (e2, AddMember B dnB pkB sB vB hB pB),
             (e3, AddMember C dnC pkC sC vC hC pC), (e4, RemoveMember B)]) = [A, C] \<and>
         \<not> isMember (run (constructor e0)
            [(e1, AddMember A dnA pkA sA vA hA pA), (e2, AddMember B dnB pkB sB vB hB pB),
             (e3, AddMember C dnC pkC sC vC hC pC), (e4, RemoveMember B)]) B \<and>
         isMember (run (constructor e0)
            [(e1, AddMember A dnA pkA sA vA hA pA), (e2, AddMember B dnB pkB sB vB hB pB),
             (e3, AddMember C dnC pkC sC vC hC pC), (e4, RemoveMember B)]) A \<and>
         isMember (run (constructor e0)
            [(e1, AddMember A dnA pkA sA vA hA pA), (e2, AddMember B dnB pkB sB vB hB pB),
             (e3, AddMember C dnC pkC sC vC hC pC), (e4, RemoveMember B)]) C \<and>
         getAllMembers (run_mgr (constructor_mgr e0)
            [(e1, AddMember_mgr A dnA pkA sA vA hA pA), (e2, AddMember_mgr B dnB pkB sB vB hB pB),
             (e3, AddMember_mgr C dnC pkC sC vC hC pC), (e4, RemoveMember_mgr B)]) = [A, C] \<and>
         \<not> isMember (run_mgr (constructor_mgr e0)
            [(e1, AddMember_mgr A dnA pkA sA vA hA pA), (e2, AddMember_mgr B dnB pkB sB vB hB pB),
             (e3, AddMember_mgr C dnC pkC sC vC hC pC), (e4, RemoveMember_mgr B)]) B \<and>
         isMember (run_mgr (constructor_mgr e0)
            [(e1, AddMember_mgr A dnA pkA sA vA hA pA), (e2, AddMember_mgr B dnB pkB sB vB hB pB),
             (e3, AddMember_mgr C dnC pkC sC vC hC pC), (e4, RemoveMember_mgr B)]) A \<and>
         isMember (run_mgr (constructor_mgr e0)
            [(e1, AddMember_mgr A dnA pkA sA vA hA pA), (e2, AddMember_mgr B dnB pkB sB vB hB pB),
             (e3, AddMember_mgr C dnC pkC sC vC hC pC), (e4, RemoveMember_mgr B)]) C"
proof -
  let ?s = "run (constructor e0)
            [(e1, AddMember A dnA pkA sA vA hA pA), (e2, AddMember B dnB pkB sB vB hB pB),
             (e3, AddMember C dnC pkC sC vC hC pC), (e4, RemoveMember B)]"
  let ?t = "run_mgr (constructor_mgr e0)
            [(e1, AddMember_mgr A dnA pkA sA vA hA pA), (e2, AddMember_mgr B dnB pkB sB vB hB pB),
             (e3, AddMember_mgr C dnC pkC sC vC hC pC), (e4, RemoveMember_mgr B)]"
  have ne': "B \<noteq> A" "C \<noteq> A" "C \<noteq> B" using ne by auto
  have s: "memberAddresses ?s = [A, C] \<and> memberAddress (members ?s B) = 0 \<and>
      memberAddress (members ?s A) = A \<and> memberAddress (members ?s C) = C"
    using nz ne ne' au
    by (simp add: run_def transact_def constructor_def addMember_def removeMember_def
        onlyOwner_def memberDoesNotExist_def memberExists_def zeroMember_def)
  have t: "memberAddresses ?t = [A, C] \<and> memberAddress (members ?t B) = 0 \<and>
      memberAddress (members ?t A) = A \<and> memberAddress (members ?t C) = C"
    using nz ne ne' au
    by (simp add: run_mgr_def transact_mgr_def constructor_mgr_def addMember_mgr_def
        removeMember_mgr_def onlyManager_def memberDoesNotExist_def memberExists_def
        zeroMember_def)
  show ?thesis using s t nz by (simp add: getAllMembers_def isMember_def)
qed

text \<open>Addresses 1, 2, 3: removing 2 leaves \<open>[1, 3]\<close>.\<close>

theorem swap_removal_witness:
  "getAllMembers (run (constructor \<lparr>sender = 9, timestamp = 0\<rparr>)
      [(\<lparr>sender = 9, timestamp = 1\<rparr>, AddMember 1 ''CN=Node1'' [17] 1001 1 ''h1'' 30303),
       (\<lparr>sender = 9, timestamp = 2\<rparr>, AddMember 2 ''CN=Node2'' [34] 1002 1 ''h2'' 30304),
       (\<lparr>sender = 9, timestamp = 3\<rparr>, AddMember 3 ''CN=Node3'' [51] 1003 1 ''h3'' 30305),
       (\<lparr>sender = 9, timestamp = 4\<rparr>, RemoveMember 2)]) = [1, 3]
   \<and> getAllMembers (run_mgr (constructor_mgr \<lparr>sender = 9, timestamp = 0\<rparr>)
      [(\<lparr>sender = 9, timestamp = 1\<rparr>, AddMember_mgr 1 ''CN=Node1'' [17] 1001 1 ''h1'' 30303),
       (\<lparr>sender = 9, timestamp = 2\<rparr>, AddMember_mgr 2 ''CN=Node2'' [34] 1002 1 ''h2'' 30304),
       (\<lparr>sender = 9, timestamp = 3\<rparr>, AddMember_mgr 3 ''CN=Node3'' [51] 1003 1 ''h3'' 30305),
       (\<lparr>sender = 9, timestamp = 4\<rparr>, RemoveMember_mgr 2)]) = [1, 3]"
  using swap_removal [of "1 :: address" 2 3 "\<lparr>sender = 9, timestamp = 1\<rparr>"
      "\<lparr>sender = 9, timestamp = 0\<rparr>" "\<lparr>sender = 9, timestamp = 2\<rparr>"
      "\<lparr>sender = 9, timestamp = 3\<rparr>" "\<lparr>sender = 9, timestamp = 4\<rparr>"
      "''CN=Node1''" "[17]" 1001 1 "''h1''" 30303
      "''CN=Node2''" "[34]" 1002 1 "''h2''" 30304
      "''CN=Node3''" "[51]" 1003 1 "''h3''" 30305]
  by simp

text \<open>
  With the zero address in the middle the removal reverts ("Member does not exist") and
  the list keeps all three entries.
\<close>

theorem swap_removal_counterexample:
  "getAllMembers (run (constructor \<lparr>sender = 9, timestamp = 0\<rparr>)
      [(\<lparr>sender = 9, timestamp = 1\<rparr>, AddMember 1 ''CN=Node1'' [17] 1001 1 ''h1'' 30303),
       (\<lparr>sender = 9, timestamp = 2\<rparr>, AddMember 0 ''CN=Node2'' [34] 1002 1 ''h2'' 30304),
       (\<lparr>sender = 9, timestamp = 3\<rparr>, AddMember 2 ''CN=Node3'' [51] 1003 1 ''h3'' 30305),
       (\<lparr>sender = 9, timestamp = 4\<rparr>, RemoveMember 0)]) = [1, 0, 2]
   \<and> getAllMembers (run_mgr (constructor_mgr \<lparr>sender = 9, timestamp = 0\<rparr>)
      [(\<lparr>sender = 9, timestamp = 1\<rparr>, AddMember_mgr 1 ''CN=Node1'' [17] 1001 1 ''h1'' 30303),
       (\<lparr>sender = 9, timestamp = 2\<rparr>, AddMember_mgr 0 ''CN=Node2'' [34] 1002 1 ''h2'' 30304),
       (\<lparr>sender = 9, timestamp = 3\<rparr>, AddMember_mgr 2 ''CN=Node3'' [51] 1003 1 ''h3'' 30305),
       (\<lparr>sender = 9, timestamp = 4\<rparr>, RemoveMember_mgr 0)]) = [1, 0, 2]"
  by (simp add: run_def transact_def constructor_def addMember_def removeMember_def
      onlyOwner_def run_mgr_def transact_mgr_def constructor_mgr_def addMember_mgr_def
      removeMember_mgr_def onlyManager_def memberDoesNotExist_def memberExists_def
      zeroMember_def getAllMembers_def)

subsection \<open>The search loop and the invariant of the manager contract\<close>

lemma findIndex_found:
  "a \<in> set xs \<Longrightarrow>
     \<exists>k. findIndex xs a i = (k, True) \<and> i \<le> k \<and> k - i < length xs \<and> xs ! (k - i) = a"
proof (induction xs arbitrary: i)
  case Nil
  then show ?case by simp
next
  case (Cons x xs)
  show ?case
  proof (cases "x = a")
    case True
    then show ?thesis by simp
  next
    case False
    then have "a \<in> set xs" using Cons.prems by simp
    then obtain k where k: "findIndex xs a (Suc i) = (k, True)" "Suc i \<le> k"
        "k - Suc i < length xs" "xs ! (k - Suc i) = a"
      using Cons.IH [of "Suc i"] by blast
    have "k - i = Suc (k - Suc i)" using k(2) by simp
    then have "(x # xs) ! (k - i) = a" using k(4) by simp
    then show ?thesis using False k by auto
  qed
qed

lemma findIndex_not_found: "a \<notin> set xs \<Longrightarrow> findIndex xs a i = (0, False)"
  by (induction xs arbitrary: i) auto

lemma in_set_swap_pop:
  assumes "k < length L" and "b \<in> set L" and "b \<noteq> L ! k"
  shows "b \<in> set (butlast (L[k := L ! (length L - 1)]))"
proof -
  let ?L' = "butlast (L[k := L ! (length L - 1)])"
  have len: "length ?L' = length L - 1" by simp
  have nth': "\<And>i. i < length L - 1 \<Longrightarrow> ?L' ! i = (if i = k then L ! (length L - 1) else L ! i)"
    by (simp add: nth_butlast)
  from assms(2) obtain j where j: "j < length L" "L ! j = b" by (auto simp: in_set_conv_nth)
  have jk: "j \<noteq> k" using j assms(3) by auto
  show ?thesis
  proof (cases "j = length L - 1")
    case True
    have "k < length L - 1" using assms(1) jk True by auto
    then have "k < length ?L' \<and> ?L' ! k = b" using True j by (simp add: nth_butlast)
    then show ?thesis by (metis nth_mem)
  next
    case False
    then have "j < length L - 1" using j by auto
    then have "j < length ?L' \<and> ?L' ! j = b" using jk j by (simp add: nth_butlast)
    then show ?thesis by (metis nth_mem)
  qed
qed

lemma removeMember_mgr_Inr:
  assumes "removeMember_mgr s e a = Inr (s', evs)"
  shows "(a \<notin> set (memberAddresses s) \<and> s' = s \<and> evs = []) \<or>
         (\<exists>k. k < length (memberAddresses s) \<and> memberAddresses s ! k = a \<and>
            s' = s\<lparr> memberAddresses :=
                       butlast ((memberAddresses s)[k := memberAddresses s ! (length (memberAddresses s) - 1)]),
                     members := (members s)(a := zeroMember),
                     memberCount := memberCount s - 1 \<rparr> \<and>
            evs = [MemberRemoved a])"
proof (cases "a \<in> set (memberAddresses s)")
  case True
  then obtain k where k: "findIndex (memberAddresses s) a 0 = (k, True)"
      "k < length (memberAddresses s)" "memberAddresses s ! k = a"
    using findIndex_found [of a "memberAddresses s" 0] by auto
  then show ?thesis using assms
    by (auto simp: removeMember_mgr_def Let_def split: if_splits)
next
  case False
  then show ?thesis using assms findIndex_not_found [of a "memberAddresses s" 0]
    by (auto simp: removeMember_mgr_def Let_def split: if_splits)
qed

lemma wellListed_constructor_mgr: "wellListed (constructor_mgr e)"
  by (simp add: wellListed_def constructor_mgr_def zeroMember_def)

lemma wellListed_removeMember_mgr:
  assumes inv: "wellListed s" and rm: "removeMember_mgr s e a = Inr (s', evs)"
  shows "wellListed s'"
proof -
  from removeMember_mgr_Inr [OF rm] show ?thesis
  proof
    assume "a \<notin> set (memberAddresses s) \<and> s' = s \<and> evs = []"
    then show ?thesis using inv by simp
  next
    assume "\<exists>k. k < length (memberAddresses s) \<and> memberAddresses s ! k = a \<and>
            s' = s\<lparr> memberAddresses :=
                       butlast ((memberAddresses s)[k := memberAddresses s ! (length (memberAddresses s) - 1)]),
                     members := (members s)(a := zeroMember),
                     memberCount := memberCount s - 1 \<rparr> \<and>
            evs = [MemberRemoved a]"
    then obtain k where k: "k < length (memberAddresses s)" "memberAddresses s ! k = a"
      and s': "s' = s\<lparr> memberAddresses :=
                       butlast ((memberAddresses s)[k := memberAddresses s ! (length (memberAddresses s) - 1)]),
                     members := (members s)(a := zeroMember),
                     memberCount := memberCount s - 1 \<rparr>"
      by blast
    have c1: "\<forall>b. memberAddress (members s' b) = 0 \<or> memberAddress (members s' b) = b"
      using inv by (simp add: s' wellListed_def zeroMember_def)
    have c2: "\<forall>b. memberAddress (members s' b) \<noteq> 0 \<longrightarrow> b \<in> set (memberAddresses s')"
    proof (intro allI impI)
      fix b assume "memberAddress (members s' b) \<noteq> 0"
      then have ba: "b \<noteq> a" and "memberAddress (members s b) \<noteq> 0"
        by (auto simp: s' zeroMember_def split: if_splits)
      then have "b \<in> set (memberAddresses s)" using inv by (simp add: wellListed_def)
      then have "b \<in> set (butlast ((memberAddresses s)
                   [k := memberAddresses s ! (length (memberAddresses s) - 1)]))"
        using k ba by (intro in_set_swap_pop) auto
      then show "b \<in> set (memberAddresses s')" by (simp add: s')
    qed
    show ?thesis unfolding wellListed_def using c1 c2 by blast
  qed
qed

lemma wellListed_exec_mgr:
  assumes "wellListed s" and "exec_mgr s e c = Inr (s', evs)"
  shows "wellListed s'"
proof (cases c)
  case (AddMember_mgr a name key ser ver h p)
  then show ?thesis using assms
    by (auto simp: addMember_mgr_def memberDoesNotExist_def wellListed_def Let_def
        split: if_splits)
next
  case (RemoveMember_mgr a)
  then show ?thesis using assms wellListed_removeMember_mgr by simp
next
  case (UpdateMemberStatus_mgr a act)
  then show ?thesis using assms
    by (auto simp: updateMemberStatus_mgr_def memberExists_def wellListed_def split: if_splits)
next
  case (UpdateMemberDetails_mgr a name key ser ver h p)
  then show ?thesis using assms
    by (auto simp: updateMemberDetails_mgr_def memberExists_def wellListed_def split: if_splits)
next
  case (TransferManagerRole n)
  then show ?thesis using assms
    by (auto simp: transferManagerRole_def wellListed_def Let_def split: if_splits)
next
  case (UpdateSubnetMemberDetail a ser ver h p)
  then show ?thesis using assms
    by (auto simp: updateSubnetMemberDetail_def memberExists_def wellListed_def split: if_splits)
qed

lemma wellListed_transact_mgr: "wellListed s \<Longrightarrow> wellListed (transact_mgr s tx)"
  by (cases "exec_mgr s (fst tx) (snd tx)") (auto simp: transact_mgr_def dest: wellListed_exec_mgr)

lemma wellListed_run_mgr: "wellListed s \<Longrightarrow> wellListed (run_mgr s txs)"
  unfolding run_mgr_def by (induction txs arbitrary: s) (simp_all add: wellListed_transact_mgr)

lemma wellListed_reachable: "wellListed (run_mgr (constructor_mgr e) txs)"
  by (rule wellListed_run_mgr) (rule wellListed_constructor_mgr)

lemma removeMember_mgr_event:
  assumes inv: "wellListed s" and rm: "removeMember_mgr s e a = Inr (s', evs)"
  shows "evs = [MemberRemoved a]"
proof -
  have "memberAddress (members s a) \<noteq> 0"
    using rm by (auto simp: removeMember_mgr_def memberExists_def split: if_splits)
  then have "a \<in> set (memberAddresses s)" using inv by (simp add: wellListed_def)
  then show ?thesis using removeMember_mgr_Inr [OF rm] by auto
qed

section \<open>Audit events\<close>

text \<open>
  C8. Every successful mutating call emits exactly one event: \<open>MemberAdded\<close> with the
  address and the name for an add, \<open>MemberRemoved\<close> with the address for a removal,
  \<open>MemberUpdated\<close> with the address for each update; a call that reverts, with whatever
  error, logs nothing. For the Ownable contract this holds in any state; for the manager
  contract, whose removal emits only when its search finds the address, in every state
  reached from the freshly deployed contract.
\<close>

theorem audit_events_once:
  "(addMember s e a dn pk ser pv h p = Inr (s', evs) \<longrightarrow> evs = [MemberAdded a dn]) \<and>
   (removeMember s e a = Inr (s', evs) \<longrightarrow> evs = [MemberRemoved a]) \<and>
   (updateMemberStatus s e a act = Inr (s', evs) \<longrightarrow> evs = [MemberUpdated a]) \<and>
   (updateMemberDetails s e a dn pk ser pv h p = Inr (s', evs) \<longrightarrow> evs = [MemberUpdated a]) \<and>
   (exec s e c = Inl err \<longrightarrow> logs s (e, c) = []) \<and>
   (t = run_mgr (constructor_mgr dep) txs \<longrightarrow>
      (addMember_mgr t e a dn pk ser pv h p = Inr (t', evs) \<longrightarrow> evs = [MemberAdded a dn]) \<and>
      (removeMember_mgr t e a = Inr (t', evs) \<longrightarrow> evs = [MemberRemoved a]) \<and>
      (updateMemberStatus_mgr t e a act = Inr (t', evs) \<longrightarrow> evs = [MemberUpdated a]) \<and>
      (updateMemberDetails_mgr t e a dn pk ser pv h p = Inr (t', evs) \<longrightarrow>
         evs = [MemberUpdated a]) \<and>
      (updateSubnetMemberDetail t e a ser pv h p = Inr (t', evs) \<longrightarrow> evs = [MemberUpdated a]) \<and>
      (exec_mgr t e d = Inl err \<longrightarrow> logs_mgr t (e, d) = []))"
proof (intro conjI impI)
  show "addMember s e a dn pk ser pv h p = Inr (s', evs) \<Longrightarrow> evs = [MemberAdded a dn]"
    by (auto simp: addMember_def Let_def split: if_splits)
  show "removeMember s e a = Inr (s', evs) \<Longrightarrow> evs = [MemberRemoved a]"
    by (auto simp: removeMember_def Let_def split: if_splits)
  show "updateMemberStatus s e a act = Inr (s', evs) \<Longrightarrow> evs = [MemberUpdated a]"
    by (auto simp: updateMemberStatus_def split: if_splits)
  show "updateMemberDetails s e a dn pk ser pv h p = Inr (s', evs) \<Longrightarrow> evs = [MemberUpdated a]"
    by (auto simp: updateMemberDetails_def split: if_splits)
  show "exec s e c = Inl err \<Longrightarrow> logs s (e, c) = []"
    by (simp add: logs_def)
next
  assume "t = run_mgr (constructor_mgr dep) txs"
  then have inv: "wellListed t" by (simp add: wellListed_reachable)
  show "addMember_mgr t e a dn pk ser pv h p = Inr (t', evs) \<Longrightarrow> evs = [MemberAdded a dn]"
    by (auto simp: addMember_mgr_def Let_def split: if_splits)
  show "removeMember_mgr t e a = Inr (t', evs) \<Longrightarrow> evs = [MemberRemoved a]"
    using inv by (rule removeMember_mgr_event)
  show "updateMemberStatus_mgr t e a act = Inr (t', evs) \<Longrightarrow> evs = [MemberUpdated a]"
    by (auto simp: updateMemberStatus_mgr_def split: if_splits)
  show "updateMemberDetails_mgr t e a dn pk ser pv h p = Inr (t', evs) \<Longrightarrow> evs = [MemberUpdated a]"
    by (auto simp: updateMemberDetails_mgr_def split: if_splits)
  show "updateSubnetMemberDetail t e a ser pv h p = Inr (t', evs) \<Longrightarrow> evs = [MemberUpdated a]"
    by (auto simp: updateSubnetMemberDetail_def split: if_splits)
  show "exec_mgr t e d = Inl err \<Longrightarrow> logs_mgr t (e, d) = []"
    by (simp add: logs_mgr_def)
qed

text \<open>A member added and removed again; a removal that reverts.\<close>

theorem audit_events_once_witness:
  "removeMember_mgr (run_mgr (constructor_mgr \<lparr>sender = 1, timestamp = 0\<rparr>)
        [(\<lparr>sender = 1, timestamp = 100\<rparr>, AddMember_mgr 5 ''CN=Node1'' [17] 1001 1 ''h1'' 30303)])
      \<lparr>sender = 1, timestamp = 200\<rparr> 5 =
     Inr (constructor_mgr \<lparr>sender = 1, timestamp = 0\<rparr>, [MemberRemoved 5])
   \<and> logs (constructor \<lparr>sender = 1, timestamp = 0\<rparr>) (\<lparr>sender = 1, timestamp = 200\<rparr>, RemoveMember 5)
      = []"
proof -
  let ?t = "run_mgr (constructor_mgr \<lparr>sender = 1, timestamp = 0\<rparr>)
        [(\<lparr>sender = 1, timestamp = 100\<rparr>, AddMember_mgr 5 ''CN=Node1'' [17] 1001 1 ''h1'' 30303)]"
  let ?e = "\<lparr>sender = 1, timestamp = 200\<rparr>"
  have "\<exists>evs. removeMember_mgr ?t ?e 5 = Inr (constructor_mgr \<lparr>sender = 1, timestamp = 0\<rparr>, evs)"
    by (simp add: run_mgr_def transact_mgr_def constructor_mgr_def addMember_mgr_def
        removeMember_mgr_def onlyManager_def memberDoesNotExist_def memberExists_def
        zeroMember_def fun_upd_idem)
  then obtain evs where
    r: "removeMember_mgr ?t ?e 5 = Inr (constructor_mgr \<lparr>sender = 1, timestamp = 0\<rparr>, evs)"
    by blast
  have f: "exec (constructor \<lparr>sender = 1, timestamp = 0\<rparr>) ?e (RemoveMember 5) = Inl NotFound"
    by (simp add: constructor_def removeMember_def onlyOwner_def memberExists_def zeroMember_def)
  note th = audit_events_once [where t = "?t" and dep = "\<lparr>sender = 1, timestamp = 0\<rparr>"
      and txs = "[(\<lparr>sender = 1, timestamp = 100\<rparr>,
                   AddMember_mgr 5 ''CN=Node1'' [17] 1001 1 ''h1'' 30303)]"
      and e = "?e" and a = 5 and t' = "constructor_mgr \<lparr>sender = 1, timestamp = 0\<rparr>"
      and evs = evs and s = "constructor \<lparr>sender = 1, timestamp = 0\<rparr>"
      and c = "RemoveMember 5" and err = NotFound]
  have "evs = [MemberRemoved 5]" using th r by blast
  moreover have "logs (constructor \<lparr>sender = 1, timestamp = 0\<rparr>) (?e, RemoveMember 5) = []"
    using th f by blast
  ultimately show ?thesis using r by simp
qed

section \<open>The zero address\<close>

lemma zero_stays_exec:
  assumes "wellIndexed s" and "0 \<in> set (memberAddresses s)" and "exec s e c = Inr (s', evs)"
  shows "0 \<in> set (memberAddresses s')"
proof (cases c)
  case (AddMember a name key ser ver h p)
  then show ?thesis using assms
    by (auto simp: addMember_def Let_def split: if_splits)
next
  case (RemoveMember a)
  then show ?thesis using assms zero_stays_removeMember by simp
next
  case (UpdateMemberStatus a act)
  then show ?thesis using assms
    by (auto simp: updateMemberStatus_def split: if_splits)
next
  case (UpdateMemberDetails a name key ser ver h p)
  then show ?thesis using assms
    by (auto simp: updateMemberDetails_def split: if_splits)
next
  case (TransferOwnership n)
  then show ?thesis using assms
    by (auto simp: transferOwnership_def split: if_splits)
qed

lemma zero_stays_run:
  "wellIndexed s \<Longrightarrow> 0 \<in> set (memberAddresses s) \<Longrightarrow> 0 \<in> set (memberAddresses (run s txs))"
proof (induction txs arbitrary: s)
  case Nil
  then show ?case by (simp add: run_def)
next
  case (Cons tx txs)
  have w: "wellIndexed (transact s tx)" using Cons.prems(1) by (rule wellIndexed_transact)
  have z: "0 \<in> set (memberAddresses (transact s tx))"
    using Cons.prems zero_stays_exec [of s "fst tx" "snd tx"]
    by (cases "exec s (fst tx) (snd tx)") (auto simp: transact_def)
  have "run s (tx # txs) = run (transact s tx) txs" by (simp add: run_def)
  then show ?case using Cons.IH [OF w z] by simp
qed

lemma zero_stays_exec_mgr:
  assumes "wellListed s" and "0 \<in> set (memberAddresses s)" and "exec_mgr s e c = Inr (s', evs)"
  shows "0 \<in> set (memberAddresses s')"
proof (cases c)
  case (AddMember_mgr a name key ser ver h p)
  then show ?thesis using assms
    by (auto simp: addMember_mgr_def Let_def split: if_splits)
next
  case (RemoveMember_mgr a)
  then have rm: "removeMember_mgr s e a = Inr (s', evs)" using assms by simp
  then have p: "memberAddress (members s a) \<noteq> 0"
    by (auto simp: removeMember_mgr_def memberExists_def split: if_splits)
  have "memberAddress (members s a) = 0 \<or> memberAddress (members s a) = a"
    using assms(1) by (simp add: wellListed_def)
  then have a0: "a \<noteq> 0" using p by auto
  from removeMember_mgr_Inr [OF rm] show ?thesis
  proof
    assume "a \<notin> set (memberAddresses s) \<and> s' = s \<and> evs = []"
    then show ?thesis using assms by simp
  next
    assume "\<exists>k. k < length (memberAddresses s) \<and> memberAddresses s ! k = a \<and>
            s' = s\<lparr> memberAddresses :=
                       butlast ((memberAddresses s)[k := memberAddresses s ! (length (memberAddresses s) - 1)]),
                     members := (members s)(a := zeroMember),
                     memberCount := memberCount s - 1 \<rparr> \<and>
            evs = [MemberRemoved a]"
    then obtain k where k: "k < length (memberAddresses s)" "memberAddresses s ! k = a"
      and s': "memberAddresses s' =
          butlast ((memberAddresses s)[k := memberAddresses s ! (length (memberAddresses s) - 1)])"
      by auto
    have "0 \<noteq> memberAddresses s ! k" using k a0 by simp
    then show ?thesis unfolding s' using k(1) assms(2) by (intro in_set_swap_pop)
  qed
next
  case (UpdateMemberStatus_mgr a act)
  then show ?thesis using assms
    by (auto simp: updateMemberStatus_mgr_def split: if_splits)
next
  case (UpdateMemberDetails_mgr a name key ser ver h p)
  then show ?thesis using assms
    by (auto simp: updateMemberDetails_mgr_def split: if_splits)
next
  case (TransferManagerRole n)
  then show ?thesis using assms
    by (auto simp: transferManagerRole_def Let_def split: if_splits)
next
  case (UpdateSubnetMemberDetail a ser ver h p)
  then show ?thesis using assms
    by (auto simp: updateSubnetMemberDetail_def split: if_splits)
qed

lemma zero_stays_run_mgr:
  "wellListed s \<Longrightarrow> 0 \<in> set (memberAddresses s) \<Longrightarrow>
     0 \<in> set (memberAddresses (run_mgr s txs))"
proof (induction txs arbitrary: s)
  case Nil
  then show ?case by (simp add: run_mgr_def)
next
  case (Cons tx txs)
  have w: "wellListed (transact_mgr s tx)" using Cons.prems(1) by (rule wellListed_transact_mgr)
  have z: "0 \<in> set (memberAddresses (transact_mgr s tx))"
    using Cons.prems zero_stays_exec_mgr [of s "fst tx" "snd tx"]
    by (cases "exec_mgr s (fst tx) (snd tx)") (auto simp: transact_mgr_def)
  have "run_mgr s (tx # txs) = run_mgr (transact_mgr s tx) txs" by (simp add: run_mgr_def)
  then show ?case using Cons.IH [OF w z] by simp
qed

lemma zero_never_member: "wellIndexed s \<Longrightarrow> memberAddress (members s 0) = 0"
  unfolding wellIndexed_def by metis

lemma zero_never_member_mgr: "wellListed s \<Longrightarrow> memberAddress (members s 0) = 0"
  unfolding wellListed_def by metis

text \<open>
  C10. In every state reached from a freshly deployed contract (either version), an add of
  the zero address by the authority succeeds and emits \<open>MemberAdded\<close>; afterwards
  \<open>isMember\<close> of the zero address is false, \<open>getMember\<close> and \<open>removeMember\<close> of it
  revert with NotFound, and the list contains it. Whatever transactions follow, the zero
  address stays in the list, is not a member, and its removal reverts (Unauthorized for a
  stranger, NotFound for the authority): it can never be removed.
\<close>

theorem zero_identity_stuck:
  "(s = run (constructor dep) txs \<and> sender e = owner s \<longrightarrow>
      exec s e (AddMember 0 dn pk ser pv h p) =
        Inr (transact s (e, AddMember 0 dn pk ser pv h p), [MemberAdded 0 dn]) \<and>
      \<not> isMember (transact s (e, AddMember 0 dn pk ser pv h p)) 0 \<and>
      getMember (transact s (e, AddMember 0 dn pk ser pv h p)) 0 = Inl NotFound \<and>
      removeMember (transact s (e, AddMember 0 dn pk ser pv h p)) e 0 = Inl NotFound \<and>
      0 \<in> set (getAllMembers (transact s (e, AddMember 0 dn pk ser pv h p))) \<and>
      0 \<in> set (getAllMembers (run (transact s (e, AddMember 0 dn pk ser pv h p)) txs')) \<and>
      \<not> isMember (run (transact s (e, AddMember 0 dn pk ser pv h p)) txs') 0 \<and>
      removeMember (run (transact s (e, AddMember 0 dn pk ser pv h p)) txs') e' 0
        \<in> {Inl Unauthorized, Inl NotFound}) \<and>
   (t = run_mgr (constructor_mgr dep) txm \<and> sender e = manager t \<longrightarrow>
      exec_mgr t e (AddMember_mgr 0 dn pk ser pv h p) =
        Inr (transact_mgr t (e, AddMember_mgr 0 dn pk ser pv h p), [MemberAdded 0 dn]) \<and>
      \<not> isMember (transact_mgr t (e, AddMember_mgr 0 dn pk ser pv h p)) 0 \<and>
      getMember (transact_mgr t (e, AddMember_mgr 0 dn pk ser pv h p)) 0 = Inl NotFound \<and>
      removeMember_mgr (transact_mgr t (e, AddMember_mgr 0 dn pk ser pv h p)) e 0
        = Inl NotFound \<and>
      0 \<in> set (getAllMembers (transact_mgr t (e, AddMember_mgr 0 dn pk ser pv h p))) \<and>
      0 \<in> set (getAllMembers
              (run_mgr (transact_mgr t (e, AddMember_mgr 0 dn pk ser pv h p)) txm')) \<and>
      \<not> isMember (run_mgr (transact_mgr t (e, AddMember_mgr 0 dn pk ser pv h p)) txm') 0 \<and>
      removeMember_mgr (run_mgr (transact_mgr t (e, AddMember_mgr 0 dn pk ser pv h p)) txm') e' 0
        \<in> {Inl Unauthorized, Inl NotFound})"
proof (intro conjI impI)
  let ?tx = "(e, AddMember 0 dn pk ser pv h p)"
  let ?s1 = "transact s ?tx"
  assume a: "s = run (constructor dep) txs \<and> sender e = owner s"
  then have inv: "wellIndexed s" by (simp add: wellIndexed_reachable)
  have z: "memberAddress (members s 0) = 0" using inv by (rule zero_never_member)
  have inv1: "wellIndexed ?s1" using inv by (rule wellIndexed_transact)
  have z1: "memberAddress (members ?s1 0) = 0" using inv1 by (rule zero_never_member)
  have s1: "?s1 = s\<lparr> members := (members s)(0 := \<lparr> x500Name = dn, memberAddress = 0,
              publicKey = pk, isActive = True, joinedAt = timestamp e, lastUpdated = timestamp e,
              serial = ser, platformVersion = pv, host = h, port = p \<rparr>),
            memberIndex := (memberIndex s)(0 := length (memberAddresses s)),
            memberAddresses := memberAddresses s @ [0] \<rparr>"
    using a z by (simp add: transact_def addMember_def onlyOwner_def memberDoesNotExist_def)
  show "exec s e (AddMember 0 dn pk ser pv h p) = Inr (?s1, [MemberAdded 0 dn])"
    unfolding s1 using a z by (simp add: addMember_def onlyOwner_def memberDoesNotExist_def)
  show "\<not> isMember ?s1 0" using z1 by (simp add: isMember_def)
  show "getMember ?s1 0 = Inl NotFound" using z1 by (simp add: getMember_def memberExists_def)
  have o1: "owner ?s1 = owner s" by (simp add: s1)
  show "removeMember ?s1 e 0 = Inl NotFound"
    using z1 a o1 by (simp add: removeMember_def onlyOwner_def memberExists_def)
  show l1: "0 \<in> set (getAllMembers ?s1)" by (simp add: s1 getAllMembers_def)
  then have l1': "0 \<in> set (memberAddresses ?s1)" by (simp add: getAllMembers_def)
  show "0 \<in> set (getAllMembers (run ?s1 txs'))"
    using zero_stays_run [OF inv1 l1'] by (simp add: getAllMembers_def)
  have inv2: "wellIndexed (run ?s1 txs')" using inv1 by (rule wellIndexed_run)
  have z2: "memberAddress (members (run ?s1 txs') 0) = 0" using inv2 by (rule zero_never_member)
  show "\<not> isMember (run ?s1 txs') 0" using z2 by (simp add: isMember_def)
  show "removeMember (run ?s1 txs') e' 0 \<in> {Inl Unauthorized, Inl NotFound}"
    using z2 by (simp add: removeMember_def memberExists_def)
next
  let ?tx = "(e, AddMember_mgr 0 dn pk ser pv h p)"
  let ?t1 = "transact_mgr t ?tx"
  assume a: "t = run_mgr (constructor_mgr dep) txm \<and> sender e = manager t"
  then have inv: "wellListed t" by (simp add: wellListed_reachable)
  have z: "memberAddress (members t 0) = 0" using inv by (rule zero_never_member_mgr)
  have inv1: "wellListed ?t1" using inv by (rule wellListed_transact_mgr)
  have z1: "memberAddress (members ?t1 0) = 0" using inv1 by (rule zero_never_member_mgr)
  have t1: "?t1 = t\<lparr> members := (members t)(0 := \<lparr> x500Name = dn, memberAddress = 0,
              publicKey = pk, isActive = True, joinedAt = timestamp e, lastUpdated = timestamp e,
              serial = ser, platformVersion = pv, host = h, port = p \<rparr>),
            memberAddresses := memberAddresses t @ [0],
            memberCount := memberCount t + 1 \<rparr>"
    using a z
    by (simp add: transact_mgr_def addMember_mgr_def onlyManager_def memberDoesNotExist_def)
  show "exec_mgr t e (AddMember_mgr 0 dn pk ser pv h p) = Inr (?t1, [MemberAdded 0 dn])"
    unfolding t1 using a z by (simp add: addMember_mgr_def onlyManager_def memberDoesNotExist_def)
  show "\<not> isMember ?t1 0" using z1 by (simp add: isMember_def)
  show "getMember ?t1 0 = Inl NotFound" using z1 by (simp add: getMember_def memberExists_def)
  have o1: "manager ?t1 = manager t" by (simp add: t1)
  show "removeMember_mgr ?t1 e 0 = Inl NotFound"
    using z1 a o1 by (simp add: removeMember_mgr_def onlyManager_def memberExists_def)
  show l1: "0 \<in> set (getAllMembers ?t1)" by (simp add: t1 getAllMembers_def)
  then have l1': "0 \<in> set (memberAddresses ?t1)" by (simp add: getAllMembers_def)
  show "0 \<in> set (getAllMembers (run_mgr ?t1 txm'))"
    using zero_stays_run_mgr [OF inv1 l1'] by (simp add: getAllMembers_def)
  have inv2: "wellListed (run_mgr ?t1 txm')" using inv1 by (rule wellListed_run_mgr)
  have z2: "memberAddress (members (run_mgr ?t1 txm') 0) = 0"
    using inv2 by (rule zero_never_member_mgr)
  show "\<not> isMember (run_mgr ?t1 txm') 0" using z2 by (simp add: isMember_def)
  show "removeMember_mgr (run_mgr ?t1 txm') e' 0 \<in> {Inl Unauthorized, Inl NotFound}"
    using z2 by (simp add: removeMember_mgr_def memberExists_def)
qed

text \<open>The zero address added to the fresh contracts, and a removal attempted.\<close>

theorem zero_identity_stuck_witness:
  "sender \<lparr>sender = 1, timestamp = 9\<rparr> = owner (run (constructor \<lparr>sender = 1, timestamp = 0\<rparr>) [])
   \<and> 0 \<in> set (getAllMembers (run (transact (run (constructor \<lparr>sender = 1, timestamp = 0\<rparr>) [])
          (\<lparr>sender = 1, timestamp = 9\<rparr>, AddMember 0 ''CN=Null'' [] 7 1 ''h0'' 30303))
        [(\<lparr>sender = 1, timestamp = 10\<rparr>, RemoveMember 0)]))
   \<and> sender \<lparr>sender = 1, timestamp = 9\<rparr> =
        manager (run_mgr (constructor_mgr \<lparr>sender = 1, timestamp = 0\<rparr>) [])
   \<and> 0 \<in> set (getAllMembers
        (run_mgr (transact_mgr (run_mgr (constructor_mgr \<lparr>sender = 1, timestamp = 0\<rparr>) [])
          (\<lparr>sender = 1, timestamp = 9\<rparr>, AddMember_mgr 0 ''CN=Null'' [] 7 1 ''h0'' 30303))
        [(\<lparr>sender = 1, timestamp = 10\<rparr>, RemoveMember_mgr 0)]))"
proof -
  have h: "sender \<lparr>sender = 1, timestamp = 9\<rparr> =
      owner (run (constructor \<lparr>sender = 1, timestamp = 0\<rparr>) [])"
    by (simp add: run_def constructor_def)
  have hm: "sender \<lparr>sender = 1, timestamp = 9\<rparr> =
      manager (run_mgr (constructor_mgr \<lparr>sender = 1, timestamp = 0\<rparr>) [])"
    by (simp add: run_mgr_def constructor_mgr_def)
  show ?thesis
    using h hm zero_identity_stuck [where s = "run (constructor \<lparr>sender = 1, timestamp = 0\<rparr>) []"
        and dep = "\<lparr>sender = 1, timestamp = 0\<rparr>" and txs = "[]"
        and e = "\<lparr>sender = 1, timestamp = 9\<rparr>" and dn = "''CN=Null''" and pk = "[]"
        and ser = 7 and pv = 1 and h = "''h0''" and p = 30303
        and txs' = "[(\<lparr>sender = 1, timestamp = 10\<rparr>, RemoveMember 0)]"
        and t = "run_mgr (constructor_mgr \<lparr>sender = 1, timestamp = 0\<rparr>) []" and txm = "[]"
        and txm' = "[(\<lparr>sender = 1, timestamp = 10\<rparr>, RemoveMember_mgr 0)]"]
    by blast
qed

end
